theory Spec2Isabelle
  imports Complex_Main "HOL-Library.Monad_Syntax"
begin

section \<open>Numbers\<close>

text \<open>
  A TypeScript \<open>number\<close> is an IEEE-754 double. Two models are used.

  \<^item> \<open>number\<close> below adds the three special values to the reals: a finite number is
    \<open>Fin r\<close>, and \<open>PInf\<close>, \<open>NInf\<close>, \<open>NaN\<close> are \<open>Infinity\<close>, \<open>-Infinity\<close> and
    \<open>NaN\<close>. The operations follow IEEE-754 on the special values and are exact on
    finite ones: rounding, overflow of a finite result to \<open>Infinity\<close> and the sign of
    zero are not modelled (a zero divisor is taken as \<open>+0\<close>).
  \<^item> Where a computation only meets numbers that validation keeps finite (traits in
    \<open>[0,5]\<close>, weights in \<open>[0,1]\<close>, and the trait and behavior scores computed from
    them) the type \<open>real\<close> is used directly; \<open>cosineSimilarity_Fin\<close> and
    \<open>normalizeVector_Fin\<close> below show that the two models of the vector utilities agree
    on finite input. Embeddings are not validated anywhere, so embeddings, the embedding
    score and the final score are of type \<open>number\<close>.
\<close>

datatype number = Fin real | PInf | NInf | NaN

fun num_add :: "number \<Rightarrow> number \<Rightarrow> number" where
  "num_add (Fin x) (Fin y) = Fin (x + y)"
| "num_add NaN _ = NaN"
| "num_add _ NaN = NaN"
| "num_add PInf NInf = NaN"
| "num_add NInf PInf = NaN"
| "num_add PInf _ = PInf"
| "num_add _ PInf = PInf"
| "num_add NInf _ = NInf"
| "num_add _ NInf = NInf"

definition signed_inf :: "bool \<Rightarrow> number" where
  "signed_inf positive = (if positive then PInf else NInf)"

fun num_mul :: "number \<Rightarrow> number \<Rightarrow> number" where
  "num_mul (Fin x) (Fin y) = Fin (x * y)"
| "num_mul NaN _ = NaN"
| "num_mul _ NaN = NaN"
| "num_mul (Fin x) PInf = (if x = 0 then NaN else signed_inf (0 < x))"
| "num_mul (Fin x) NInf = (if x = 0 then NaN else signed_inf (x < 0))"
| "num_mul PInf (Fin y) = (if y = 0 then NaN else signed_inf (0 < y))"
| "num_mul NInf (Fin y) = (if y = 0 then NaN else signed_inf (y < 0))"
| "num_mul PInf PInf = PInf"
| "num_mul PInf NInf = NInf"
| "num_mul NInf PInf = NInf"
| "num_mul NInf NInf = PInf"

fun num_div :: "number \<Rightarrow> number \<Rightarrow> number" where
  "num_div (Fin x) (Fin y) =
     (if y \<noteq> 0 then Fin (x / y) else if x = 0 then NaN else signed_inf (0 < x))"
| "num_div NaN _ = NaN"
| "num_div _ NaN = NaN"
| "num_div (Fin x) PInf = Fin 0"
| "num_div (Fin x) NInf = Fin 0"
| "num_div PInf (Fin y) = signed_inf (0 \<le> y)"
| "num_div NInf (Fin y) = signed_inf (y < 0)"
| "num_div PInf PInf = NaN"
| "num_div PInf NInf = NaN"
| "num_div NInf PInf = NaN"
| "num_div NInf NInf = NaN"

fun num_neg :: "number \<Rightarrow> number" where
  "num_neg (Fin x) = Fin (- x)"
| "num_neg PInf = NInf"
| "num_neg NInf = PInf"
| "num_neg NaN = NaN"

definition num_sub :: "number \<Rightarrow> number \<Rightarrow> number" where
  "num_sub x y = num_add x (num_neg y)"

text \<open>\<open>x <= y\<close>: false as soon as one side is \<open>NaN\<close>.\<close>

fun num_le :: "number \<Rightarrow> number \<Rightarrow> bool" where
  "num_le (Fin x) (Fin y) = (x \<le> y)"
| "num_le NaN _ = False"
| "num_le _ NaN = False"
| "num_le NInf _ = True"
| "num_le _ PInf = True"
| "num_le PInf _ = False"
| "num_le _ NInf = False"

text \<open>\<open>Math.sqrt\<close>.\<close>

fun Math_sqrt :: "number \<Rightarrow> number" where
  "Math_sqrt (Fin x) = (if x < 0 then NaN else Fin (sqrt x))"
| "Math_sqrt PInf = PInf"
| "Math_sqrt NInf = NaN"
| "Math_sqrt NaN = NaN"

text \<open>\<open>!x\<close> on a number: true for \<open>0\<close> and for \<open>NaN\<close>.\<close>

fun falsy :: "number \<Rightarrow> bool" where
  "falsy (Fin x) = (x = 0)"
| "falsy NaN = True"
| "falsy PInf = False"
| "falsy NInf = False"

fun is_finite :: "number \<Rightarrow> bool" where
  "is_finite (Fin x) = True"
| "is_finite PInf = False"
| "is_finite NInf = False"
| "is_finite NaN = False"


section \<open>Vector utilities (src/common/vector.utils.ts)\<close>

text \<open>
  The loop of \<open>cosineSimilarity\<close> runs over \<open>i < a.length\<close> after the guard has
  established \<open>a.length = b.length\<close>, so it visits the pairs \<open>(a[i], b[i])\<close> in order;
  the accumulator is \<open>(dot, normA, normB)\<close>.
\<close>

definition cosine_step_num ::
  "number \<times> number \<Rightarrow> number \<times> number \<times> number \<Rightarrow> number \<times> number \<times> number" where
  "cosine_step_num p acc =
     (case (p, acc) of ((x, y), (dot, normA, normB)) \<Rightarrow>
        (num_add dot (num_mul x y), num_add normA (num_mul x x), num_add normB (num_mul y y)))"

definition cosineSimilarity_num :: "number list \<Rightarrow> number list \<Rightarrow> number" where
  "cosineSimilarity_num a b =
     (if length a = 0 \<or> length b = 0 \<or> length a \<noteq> length b then Fin 0
      else
        (case fold cosine_step_num (zip a b) (Fin 0, Fin 0, Fin 0) of
           (dot, normA, normB) \<Rightarrow>
             if falsy normA \<or> falsy normB then Fin 0
             else num_div dot (num_mul (Math_sqrt normA) (Math_sqrt normB))))"

text \<open>The same function on finite numbers, over the reals.\<close>

definition cosine_step :: "real \<times> real \<Rightarrow> real \<times> real \<times> real \<Rightarrow> real \<times> real \<times> real" where
  "cosine_step p acc =
     (case (p, acc) of ((x, y), (dot, normA, normB)) \<Rightarrow>
        (dot + x * y, normA + x * x, normB + y * y))"

definition cosineSimilarity :: "real list \<Rightarrow> real list \<Rightarrow> real" where
  "cosineSimilarity a b =
     (if length a = 0 \<or> length b = 0 \<or> length a \<noteq> length b then 0
      else
        (case fold cosine_step (zip a b) (0, 0, 0) of
           (dot, normA, normB) \<Rightarrow>
             if normA = 0 \<or> normB = 0 then 0
             else dot / (sqrt normA * sqrt normB)))"

text \<open>
  \<open>Math.max(...values)\<close>: the largest argument; with no argument it is \<open>-Infinity\<close>,
  which is \<open>None\<close> here.
\<close>

fun Math_max :: "real list \<Rightarrow> real option" where
  "Math_max [] = None"
| "Math_max (v # vs) = Some (fold max vs v)"

text \<open>
  \<open>normalizeVector\<close>. For the empty array \<open>max\<close> is \<open>-Infinity\<close>, which is not \<open>0\<close>,
  and \<open>values.map\<close> over no element is the empty array.
\<close>

definition normalizeVector :: "real list \<Rightarrow> real list" where
  "normalizeVector values =
     (case Math_max values of
        None \<Rightarrow> []
      | Some mx \<Rightarrow> if mx = 0 then map (\<lambda>v. 0) values else map (\<lambda>v. v / mx) values)"

text \<open>
  The same two functions on arbitrary numbers: \<open>Math.max\<close> is \<open>NaN\<close> as soon as one
  argument is \<open>NaN\<close> and \<open>-Infinity\<close> without arguments; \<open>max === 0\<close> is false for \<open>NaN\<close>.
\<close>

definition num_max :: "number \<Rightarrow> number \<Rightarrow> number" where
  "num_max x y = (if x = NaN \<or> y = NaN then NaN else if num_le x y then y else x)"

definition Math_max_num :: "number list \<Rightarrow> number" where
  "Math_max_num values = fold num_max values NInf"

definition normalizeVector_num :: "number list \<Rightarrow> number list" where
  "normalizeVector_num values =
     (let mx = Math_max_num values
      in if mx = Fin 0 then map (\<lambda>v. Fin 0) values else map (\<lambda>v. num_div v mx) values)"

text \<open>The spec's words: dot product and L2 norm of a vector.\<close>

definition dot_product :: "real list \<Rightarrow> real list \<Rightarrow> real" where
  "dot_product a b = (\<Sum>(x, y)\<leftarrow>zip a b. x * y)"

definition l2_norm :: "real list \<Rightarrow> real" where
  "l2_norm a = sqrt (\<Sum>x\<leftarrow>a. x * x)"


section \<open>JSON values\<close>

text \<open>
  The result of \<open>JSON.parse\<close>, and the type of Prisma's \<open>Json\<close> columns. An object is
  the list of its keys and values; \<open>JSON.parse\<close> returns objects with distinct keys.
\<close>

datatype json =
  JNull | JBool bool | JNum real | JStr string | JArr "json list" | JObj "(string \<times> json) list"

text \<open>Truthiness of a JSON value, as \<open>v ? a : b\<close> tests it.\<close>

fun truthy :: "json \<Rightarrow> bool" where
  "truthy JNull = False"
| "truthy (JBool b) = b"
| "truthy (JNum r) = (r \<noteq> 0)"
| "truthy (JStr s) = (s \<noteq> [])"
| "truthy (JArr _) = True"
| "truthy (JObj _) = True"


section \<open>Stored entities and the storage collaborator (Prisma)\<close>

text \<open>
  The Prisma schema is not among the sources; the rows follow the data model of the
  repository's README and the fields the services read and write. Row ids are
  integers. The nine personality traits and the twelve service traits are flat columns
  of the \<open>User\<close> and \<open>Vendor\<close> rows; they are grouped in a record of their own here,
  which is also the shape of the \<open>traits\<close> object built by \<open>computeRecommendations\<close>.
\<close>

record UserTraits =
  adventurous :: real
  decisive :: real
  eccentric :: real
  flexible :: real
  loyal :: real
  optimistic :: real
  patient :: real
  perfectionist :: real
  punctual :: real

record VendorTraits =
  serviceQuality :: real
  interactionStyle :: real
  serviceConduct :: real
  expertise :: real
  environment :: real
  atmosphere :: real
  design :: real
  hospitality :: real
  outcomeQuality :: real
  waitingTime :: real
  physicalElements :: real
  experienceTone :: real

text \<open>
  \<open>InteractionSummary\<close> is \<open>{vendorId, liked, score}\<close>; \<open>InteractionInput\<close> adds
  \<open>userId\<close> (its \<open>score\<close> is optional: \<open>None\<close> is \<open>undefined\<close>); a stored \<open>Interaction\<close>
  row adds the row id (its \<open>score\<close> is nullable: \<open>None\<close> is \<open>null\<close>).
\<close>

record InteractionSummary =
  vendorId :: int
  liked :: bool
  score :: "int option"

record InteractionInput = InteractionSummary +
  userId :: int

record Interaction = InteractionInput +
  interactionId :: int

record User =
  user_id :: int
  user_name :: string
  user_traits :: UserTraits
  user_embedding :: "number list"
  user_behaviorPreferences :: "json option"
  isTestUser :: bool

record Vendor =
  vendor_id :: int
  vendor_name :: string
  description :: "string option"
  vendor_embedding :: "number list"
  vendor_traits :: VendorTraits

record Database =
  users :: "User list"
  vendors :: "Vendor list"
  interactions :: "Interaction list"
  nextInteractionId :: int

text \<open>\<open>prisma.user.findUnique({ where: { id } })\<close> and its vendor counterpart.\<close>

definition user_findUnique :: "Database \<Rightarrow> int \<Rightarrow> User option" where
  "user_findUnique db uid = find (\<lambda>u. user_id u = uid) (users db)"

definition vendor_findUnique :: "Database \<Rightarrow> int \<Rightarrow> Vendor option" where
  "vendor_findUnique db vid = find (\<lambda>v. vendor_id v = vid) (vendors db)"

text \<open>The rows that \<open>include: { interactions: true }\<close> attaches to a user.\<close>

definition user_interactions :: "Database \<Rightarrow> int \<Rightarrow> Interaction list" where
  "user_interactions db uid = filter (\<lambda>i. userId i = uid) (interactions db)"

text \<open>
  \<open>prisma.interaction.upsert({ where: { userId_vendorId }, update, create })\<close>. In the
  \<open>update\<close> data a field that is \<open>undefined\<close> is left as stored, \<open>null\<close> clears it:
  \<open>upd_score = None\<close> is \<open>undefined\<close>, \<open>Some None\<close> is \<open>null\<close>. A created row takes the
  next id of the table's sequence. The row written is returned.
\<close>

record InteractionUpdate =
  upd_liked :: "bool option"
  upd_score :: "int option option"

definition apply_update :: "InteractionUpdate \<Rightarrow> Interaction \<Rightarrow> Interaction" where
  "apply_update u row =
     row\<lparr>liked := (case upd_liked u of None \<Rightarrow> liked row | Some l \<Rightarrow> l),
         score := (case upd_score u of None \<Rightarrow> score row | Some s \<Rightarrow> s)\<rparr>"

definition interaction_upsert ::
  "Database \<Rightarrow> int \<times> int \<Rightarrow> InteractionUpdate \<Rightarrow> InteractionInput \<Rightarrow> Interaction \<times> Database" where
  "interaction_upsert db key u c =
     (let matches = (\<lambda>i. (userId i, vendorId i) = key) in
      case find matches (interactions db) of
        Some row \<Rightarrow>
          (apply_update u row,
           db\<lparr>interactions :=
                 map (\<lambda>i. if matches i then apply_update u i else i) (interactions db)\<rparr>)
      | None \<Rightarrow>
          (let row = \<lparr>vendorId = vendorId c, liked = liked c, score = score c,
                       userId = userId c, interactionId = nextInteractionId db\<rparr>
           in (row, db\<lparr>interactions := interactions db @ [row],
                       nextInteractionId := nextInteractionId db + 1\<rparr>)))"


section \<open>Interactions service (src/interactions/interactions.service.ts)\<close>

text \<open>\<open>score ?? null\<close>: an omitted score becomes \<open>null\<close>.\<close>

definition score_or_null :: "int option \<Rightarrow> int option" where
  "score_or_null s = (case s of None \<Rightarrow> None | Some v \<Rightarrow> Some v)"

definition upsertInteraction :: "Database \<Rightarrow> InteractionInput \<Rightarrow> Interaction option \<times> Database" where
  "upsertInteraction db input =
     (case (user_findUnique db (userId input), vendor_findUnique db (vendorId input)) of
        (Some user, Some vendor) \<Rightarrow>
          (case interaction_upsert db (userId input, vendorId input)
                  \<lparr>upd_liked = Some (liked input), upd_score = Some (score_or_null (score input))\<rparr>
                  \<lparr>vendorId = vendorId input, liked = liked input,
                   score = score_or_null (score input), userId = userId input\<rparr> of
             (row, db') \<Rightarrow> (Some row, db'))
      | _ \<Rightarrow> (None, db))"

definition listForUser :: "Database \<Rightarrow> int \<Rightarrow> Interaction list" where
  "listForUser db uid = user_interactions db uid"


section \<open>Schemas (zod)\<close>

text \<open>
  A zod schema applied to a parsed JSON value: \<open>None\<close> is a thrown \<open>ZodError\<close>. The
  argument of a field schema is the value found under the field's key, \<open>None\<close> when the
  key is absent (\<open>undefined\<close>). \<open>z.number().min(lo).max(hi).optional()\<close> accepts an
  absent key and a number within the bounds, and nothing else (\<open>null\<close> is refused).
  \<open>z.object\<close> accepts objects only (not arrays, not \<open>null\<close>), drops unknown keys and
  returns the known keys that are present, in the order of the schema.
\<close>

definition zod_number_optional :: "real \<Rightarrow> real \<Rightarrow> json option \<Rightarrow> real option option" where
  "zod_number_optional lo hi v =
     (case v of
        None \<Rightarrow> Some None
      | Some (JNum r) \<Rightarrow> if lo \<le> r \<and> r \<le> hi then Some (Some r) else None
      | Some _ \<Rightarrow> None)"

definition zod_string_optional :: "json option \<Rightarrow> string option option" where
  "zod_string_optional v =
     (case v of None \<Rightarrow> Some None | Some (JStr s) \<Rightarrow> Some (Some s) | Some _ \<Rightarrow> None)"

definition zod_optional :: "(json \<Rightarrow> 'a option) \<Rightarrow> json option \<Rightarrow> 'a option option" where
  "zod_optional schema v =
     (case v of None \<Rightarrow> Some None | Some j \<Rightarrow> map_option Some (schema j))"

definition present :: "string \<Rightarrow> json option \<Rightarrow> (string \<times> json) list" where
  "present k v = (case v of None \<Rightarrow> [] | Some j \<Rightarrow> [(k, j)])"

definition vendorTraitKeys :: "string list" where
  "vendorTraitKeys =
     [''serviceQuality'', ''interactionStyle'', ''serviceConduct'', ''expertise'',
      ''environment'', ''atmosphere'', ''design'', ''hospitality'', ''outcomeQuality'',
      ''waitingTime'', ''physicalElements'', ''experienceTone'']"

fun zod_number_fields ::
  "string list \<Rightarrow> real \<Rightarrow> real \<Rightarrow> (string \<times> json) list \<Rightarrow> (string \<times> json) list option" where
  "zod_number_fields [] lo hi obj = Some []"
| "zod_number_fields (k # ks) lo hi obj =
     do {
       r \<leftarrow> zod_number_optional lo hi (map_of obj k);
       rest \<leftarrow> zod_number_fields ks lo hi obj;
       Some (present k (map_option JNum r) @ rest)
     }"

definition vendorTraitPreferenceSchema :: "json \<Rightarrow> json option" where
  "vendorTraitPreferenceSchema j =
     (case j of
        JObj obj \<Rightarrow> map_option JObj (zod_number_fields vendorTraitKeys 0 1 obj)
      | _ \<Rightarrow> None)"

definition behaviorPreferencesSchema :: "json \<Rightarrow> json option" where
  "behaviorPreferencesSchema j =
     (case j of
        JObj obj \<Rightarrow>
          do {
            notes \<leftarrow> zod_string_optional (map_of obj ''notes'');
            recentPattern \<leftarrow> zod_string_optional (map_of obj ''recentPattern'');
            vendorTraitWeights \<leftarrow>
              zod_optional vendorTraitPreferenceSchema (map_of obj ''vendorTraitWeights'');
            Some (JObj (present ''notes'' (map_option JStr notes) @
                        present ''recentPattern'' (map_option JStr recentPattern) @
                        present ''vendorTraitWeights'' vendorTraitWeights))
          }
      | _ \<Rightarrow> None)"

record AdjustmentsInput =
  Adventurous :: "real option"
  Decisive :: "real option"
  Eccentric :: "real option"
  Flexible :: "real option"
  Loyal :: "real option"
  Optimistic :: "real option"
  Patient :: "real option"
  Perfectionist :: "real option"
  Punctual :: "real option"
  embeddingWeight :: "real option"
  traitWeight :: "real option"
  behaviorWeight :: "real option"
  behaviorPreferences :: "json option"

definition adjustmentsSchema :: "json \<Rightarrow> AdjustmentsInput option" where
  "adjustmentsSchema j =
     (case j of
        JObj obj \<Rightarrow>
          do {
            a1 \<leftarrow> zod_number_optional 0 5 (map_of obj ''Adventurous'');
            a2 \<leftarrow> zod_number_optional 0 5 (map_of obj ''Decisive'');
            a3 \<leftarrow> zod_number_optional 0 5 (map_of obj ''Eccentric'');
            a4 \<leftarrow> zod_number_optional 0 5 (map_of obj ''Flexible'');
            a5 \<leftarrow> zod_number_optional 0 5 (map_of obj ''Loyal'');
            a6 \<leftarrow> zod_number_optional 0 5 (map_of obj ''Optimistic'');
            a7 \<leftarrow> zod_number_optional 0 5 (map_of obj ''Patient'');
            a8 \<leftarrow> zod_number_optional 0 5 (map_of obj ''Perfectionist'');
            a9 \<leftarrow> zod_number_optional 0 5 (map_of obj ''Punctual'');
            w1 \<leftarrow> zod_number_optional 0 1 (map_of obj ''embeddingWeight'');
            w2 \<leftarrow> zod_number_optional 0 1 (map_of obj ''traitWeight'');
            w3 \<leftarrow> zod_number_optional 0 1 (map_of obj ''behaviorWeight'');
            bp \<leftarrow> zod_optional behaviorPreferencesSchema (map_of obj ''behaviorPreferences'');
            Some \<lparr>Adventurous = a1, Decisive = a2, Eccentric = a3, Flexible = a4, Loyal = a5,
                  Optimistic = a6, Patient = a7, Perfectionist = a8, Punctual = a9,
                  embeddingWeight = w1, traitWeight = w2, behaviorWeight = w3,
                  behaviorPreferences = bp\<rparr>
          }
      | _ \<Rightarrow> None)"


section \<open>Recommendations service (src/recommendations/recommendations.service.ts)\<close>

text \<open>
  Library functions and the embedding collaborator are parameters of the model:
  \<open>JSON.parse\<close> (\<open>None\<close>: it throws \<open>SyntaxError\<close>), \<open>JSON.stringify\<close>, the conversion
  of a number to text in a template literal, and \<open>EmbeddingsService.generateEmbedding\<close>
  (\<open>None\<close>: the promise is rejected with \<open>InternalServerErrorException\<close>).
\<close>

record Env =
  JSON_parse :: "string \<Rightarrow> json option"
  JSON_stringify :: "json \<Rightarrow> string"
  numberToString :: "real \<Rightarrow> string"
  generateEmbedding :: "string \<Rightarrow> number list option"

record Weights =
  embedding :: real
  traits :: real
  behavior :: real

definition defaultWeights :: Weights where
  "defaultWeights = \<lparr>embedding = 5 / 10, traits = 3 / 10, behavior = 2 / 10\<rparr>"

text \<open>\<open>xs.filter(Boolean).join("\n")\<close> on an array of strings.\<close>

fun join :: "string \<Rightarrow> string list \<Rightarrow> string" where
  "join sep [] = []"
| "join sep [x] = x"
| "join sep (x # y # ys) = x @ sep @ join sep (y # ys)"

definition filter_join_lines :: "string list \<Rightarrow> string" where
  "filter_join_lines xs = join [CHR 0x0A] (filter (\<lambda>s. s \<noteq> []) xs)"

definition buildUserPromptFromTraits ::
  "Env \<Rightarrow> string \<Rightarrow> UserTraits \<Rightarrow> json option \<Rightarrow> string" where
  "buildUserPromptFromTraits env name t bp =
     filter_join_lines
       [''User: '' @ name,
        ''Personality traits:'',
        ''Adventurous: '' @ numberToString env (adventurous t),
        ''Decisive: '' @ numberToString env (decisive t),
        ''Eccentric: '' @ numberToString env (eccentric t),
        ''Flexible: '' @ numberToString env (flexible t),
        ''Loyal: '' @ numberToString env (loyal t),
        ''Optimistic: '' @ numberToString env (optimistic t),
        ''Patient: '' @ numberToString env (patient t),
        ''Perfectionist: '' @ numberToString env (perfectionist t),
        ''Punctual: '' @ numberToString env (punctual t),
        (case bp of
           Some j \<Rightarrow> if truthy j then ''Behavior preferences: '' @ JSON_stringify env j else []
         | None \<Rightarrow> [])]"

definition getUserTraitVector :: "UserTraits \<Rightarrow> real list" where
  "getUserTraitVector user =
     [adventurous user, decisive user, eccentric user, flexible user, loyal user,
      optimistic user, patient user, perfectionist user, punctual user]"

definition getVendorTraitVector :: "VendorTraits \<Rightarrow> real list" where
  "getVendorTraitVector vendor =
     [serviceQuality vendor, interactionStyle vendor, serviceConduct vendor, expertise vendor,
      environment vendor, atmosphere vendor, design vendor, hospitality vendor,
      outcomeQuality vendor, waitingTime vendor, physicalElements vendor,
      experienceTone vendor]"

definition buildVendorPromptForDebug :: "Env \<Rightarrow> Vendor \<Rightarrow> string" where
  "buildVendorPromptForDebug env v =
     (let t = vendor_traits v in
      filter_join_lines
        [''Vendor: '' @ vendor_name v,
         (case description v of
            Some d \<Rightarrow> if d \<noteq> [] then ''Description: '' @ d else []
          | None \<Rightarrow> []),
         ''Traits:'',
         ''Service Quality: '' @ numberToString env (serviceQuality t),
         ''Interaction Style: '' @ numberToString env (interactionStyle t),
         ''Service Conduct: '' @ numberToString env (serviceConduct t),
         ''Expertise: '' @ numberToString env (expertise t),
         ''Environment: '' @ numberToString env (environment t),
         ''Atmosphere: '' @ numberToString env (atmosphere t),
         ''Design: '' @ numberToString env (design t),
         ''Hospitality: '' @ numberToString env (hospitality t),
         ''Outcome Quality: '' @ numberToString env (outcomeQuality t),
         ''Waiting Time: '' @ numberToString env (waitingTime t),
         ''Physical Elements: '' @ numberToString env (physicalElements t),
         ''Experience Tone: '' @ numberToString env (experienceTone t)])"

definition computeTraitSimilarity :: "real list \<Rightarrow> real list \<Rightarrow> real" where
  "computeTraitSimilarity userVector vendorVector =
     cosineSimilarity (normalizeVector userVector) (normalizeVector vendorVector)"

text \<open>
  \<open>computeBehaviorScoreForVendor\<close>. \<open>find\<close> returns the first interaction of the
  vendor. In the loop a liked vendor without an entry in the map is skipped (an array
  is truthy, so \<open>!likedVector\<close> only holds for \<open>undefined\<close>); \<open>total\<close> is then divided
  by \<open>likedVendors.length\<close>.
\<close>

definition similarity_step ::
  "real list \<Rightarrow> (int \<Rightarrow> real list option) \<Rightarrow> InteractionSummary \<Rightarrow> real \<Rightarrow> real" where
  "similarity_step vendorTraitVector likedVendorsTraitMap l tot =
     (case likedVendorsTraitMap (vendorId l) of
        None \<Rightarrow> tot
      | Some likedVector \<Rightarrow> tot + computeTraitSimilarity vendorTraitVector likedVector)"

definition computeBehaviorScoreForVendor ::
  "int \<Rightarrow> InteractionSummary list \<Rightarrow> real list \<Rightarrow> (int \<Rightarrow> real list option) \<Rightarrow> real" where
  "computeBehaviorScoreForVendor vid userInteractions vendorTraitVector likedVendorsTraitMap =
     (let interaction = find (\<lambda>i. vendorId i = vid) userInteractions;
          directScore = (case interaction of
                           Some i \<Rightarrow> if liked i then 1 else 0
                         | None \<Rightarrow> 0);
          likedVendors = filter liked userInteractions;
          similarityAggregate =
            (if length likedVendors > 0
             then fold (similarity_step vendorTraitVector likedVendorsTraitMap) likedVendors 0
                    / real (length likedVendors)
             else 0)
      in 6 / 10 * directScore + 4 / 10 * similarityAggregate)"

text \<open>Lines 274--282: the adjustments payload. An empty string is falsy and is not parsed.\<close>

datatype error = InvalidAdjustments | InternalServerErrorException

definition parseAdjustments :: "Env \<Rightarrow> string option \<Rightarrow> error + AdjustmentsInput option" where
  "parseAdjustments env adjustmentsRaw =
     (case adjustmentsRaw of
        None \<Rightarrow> Inr None
      | Some raw \<Rightarrow>
          if raw = [] then Inr None
          else (case JSON_parse env raw of
                  None \<Rightarrow> Inl InvalidAdjustments
                | Some parsed \<Rightarrow>
                    (case adjustmentsSchema parsed of
                       None \<Rightarrow> Inl InvalidAdjustments
                     | Some a \<Rightarrow> Inr (Some a))))"

text \<open>\<open>adjustments?.field ?? fallback\<close>.\<close>

definition override :: "AdjustmentsInput option \<Rightarrow> (AdjustmentsInput \<Rightarrow> 'a option) \<Rightarrow> 'a \<Rightarrow> 'a" where
  "override adjustments field fallback =
     (case adjustments of
        None \<Rightarrow> fallback
      | Some a \<Rightarrow> (case field a of None \<Rightarrow> fallback | Some v \<Rightarrow> v))"

definition effectiveTraits :: "AdjustmentsInput option \<Rightarrow> UserTraits \<Rightarrow> UserTraits" where
  "effectiveTraits adjustments user =
     \<lparr>adventurous = override adjustments Adventurous (adventurous user),
      decisive = override adjustments Decisive (decisive user),
      eccentric = override adjustments Eccentric (eccentric user),
      flexible = override adjustments Flexible (flexible user),
      loyal = override adjustments Loyal (loyal user),
      optimistic = override adjustments Optimistic (optimistic user),
      patient = override adjustments Patient (patient user),
      perfectionist = override adjustments Perfectionist (perfectionist user),
      punctual = override adjustments Punctual (punctual user)\<rparr>"

definition effectiveWeights :: "AdjustmentsInput option \<Rightarrow> Weights" where
  "effectiveWeights adjustments =
     \<lparr>embedding = override adjustments embeddingWeight (embedding defaultWeights),
      traits = override adjustments traitWeight (traits defaultWeights),
      behavior = override adjustments behaviorWeight (behavior defaultWeights)\<rparr>"

text \<open>Lines 302--308. \<open>s || 1\<close> is \<open>1\<close> when the sum is \<open>0\<close>.\<close>

definition weightSum :: "Weights \<Rightarrow> real" where
  "weightSum weights =
     (let s = embedding weights + traits weights + behavior weights
      in if s = 0 then 1 else s)"

definition normalizedWeights :: "Weights \<Rightarrow> Weights" where
  "normalizedWeights weights =
     \<lparr>embedding = embedding weights / weightSum weights,
      traits = traits weights / weightSum weights,
      behavior = behavior weights / weightSum weights\<rparr>"

definition effectiveBehaviorPreferences :: "AdjustmentsInput option \<Rightarrow> User \<Rightarrow> json option" where
  "effectiveBehaviorPreferences adjustments user =
     (case Option.bind adjustments behaviorPreferences of
        Some bp \<Rightarrow> Some bp
      | None \<Rightarrow> user_behaviorPreferences user)"

text \<open>Lines 331--341: the trait vectors of the vendors the user has liked.\<close>

definition likedVendorsTraitMap_of ::
  "Interaction list \<Rightarrow> Vendor list \<Rightarrow> (int \<Rightarrow> real list option)" where
  "likedVendorsTraitMap_of userInteractions vs =
     fold (\<lambda>vendor m.
             if list_ex (\<lambda>i. vendorId i = vendor_id vendor \<and> liked i) userInteractions
             then m(vendor_id vendor \<mapsto> getVendorTraitVector (vendor_traits vendor))
             else m)
          vs Map.empty"

record Scores =
  embeddingScore :: number
  traitScore :: real
  behaviorScore :: real
  finalScore :: number

record ItemDebug =
  vendorTraitVector :: "real list"
  vendorPrompt :: string

record RecommendationItem =
  vendor :: Vendor
  scores :: Scores
  debug :: "ItemDebug option"

text \<open>Lines 355--395: the body of \<open>vendors.map\<close>.\<close>

definition scoreVendor ::
  "Env \<Rightarrow> bool \<Rightarrow> Weights \<Rightarrow> number list \<Rightarrow> real list \<Rightarrow> InteractionSummary list \<Rightarrow>
   (int \<Rightarrow> real list option) \<Rightarrow> Vendor \<Rightarrow> RecommendationItem" where
  "scoreVendor env dbg nw userEmbedding userTraitVec userInteractions likedMap v =
     (let vendorTraitVec = getVendorTraitVector (vendor_traits v);
          embeddingS = cosineSimilarity_num userEmbedding (vendor_embedding v);
          traitS = computeTraitSimilarity userTraitVec vendorTraitVec;
          behaviorS = computeBehaviorScoreForVendor (vendor_id v) userInteractions
                        vendorTraitVec likedMap;
          finalS = num_add (num_add (num_mul (Fin (embedding nw)) embeddingS)
                                    (num_mul (Fin (traits nw)) (Fin traitS)))
                           (num_mul (Fin (behavior nw)) (Fin behaviorS))
      in \<lparr>vendor = v,
          scores = \<lparr>embeddingScore = embeddingS, traitScore = traitS,
                    behaviorScore = behaviorS, finalScore = finalS\<rparr>,
          debug = (if dbg
                   then Some \<lparr>vendorTraitVector = vendorTraitVec,
                               vendorPrompt = buildVendorPromptForDebug env v\<rparr>
                   else None)\<rparr>)"

text \<open>
  \<open>Array.prototype.sort(compareFn)\<close>: the sort is stable, and \<open>a\<close> stays before \<open>b\<close>
  when \<open>compareFn(a, b) \<le> 0\<close>; a comparator result \<open>NaN\<close> is taken as \<open>+0\<close> (ECMAScript,
  SortCompare). It is modelled by insertion from the right. When the comparator is not
  consistent (it returns \<open>NaN\<close> for some pairs only) the language leaves the order to
  the implementation; the model then gives one of the possible orders.
\<close>

fun keeps_order :: "number \<Rightarrow> bool" where
  "keeps_order (Fin v) = (v \<le> 0)"
| "keeps_order NaN = True"
| "keeps_order NInf = True"
| "keeps_order PInf = False"

fun sort_insert :: "('a \<Rightarrow> 'a \<Rightarrow> number) \<Rightarrow> 'a \<Rightarrow> 'a list \<Rightarrow> 'a list" where
  "sort_insert compareFn x [] = [x]"
| "sort_insert compareFn x (y # ys) =
     (if keeps_order (compareFn x y) then x # y # ys else y # sort_insert compareFn x ys)"

definition Array_sort :: "('a \<Rightarrow> 'a \<Rightarrow> number) \<Rightarrow> 'a list \<Rightarrow> 'a list" where
  "Array_sort compareFn xs = foldr (sort_insert compareFn) xs []"

definition byFinalScoreDesc :: "RecommendationItem \<Rightarrow> RecommendationItem \<Rightarrow> number" where
  "byFinalScoreDesc a b = num_sub (finalScore (scores b)) (finalScore (scores a))"

record UserDebug =
  userTraitVector :: "real list"
  userEmbeddingLength :: nat
  adjustments :: "AdjustmentsInput option"
  prompt :: string

record UserOut =
  out_id :: int
  out_name :: string
  out_traits :: UserTraits
  out_behaviorPreferences :: "json option"
  out_weights :: Weights
  testMode :: bool
  user_debug :: "UserDebug option"

record Recommendations =
  user :: UserOut
  recommendations :: "RecommendationItem list"

text \<open>Lines 325--420: everything after the user embedding has been chosen.\<close>

definition rankVendors ::
  "Env \<Rightarrow> Database \<Rightarrow> bool \<Rightarrow> bool \<Rightarrow> User \<Rightarrow> Interaction list \<Rightarrow>
   AdjustmentsInput option \<Rightarrow> number list \<Rightarrow> Recommendations" where
  "rankVendors env db tm dbg u userRows adj userEmbedding =
     (let t = effectiveTraits adj (user_traits u);
          nw = normalizedWeights (effectiveWeights adj);
          bp = effectiveBehaviorPreferences adj u;
          userPrompt = buildUserPromptFromTraits env (user_name u) t bp;
          vs = vendors db;
          userTraitVec = getUserTraitVector t;
          likedMap = likedVendorsTraitMap_of userRows vs;
          userInteractions = map InteractionSummary.truncate userRows;
          results = map (scoreVendor env dbg nw userEmbedding userTraitVec userInteractions
                           likedMap) vs
      in \<lparr>user = \<lparr>out_id = user_id u, out_name = user_name u, out_traits = t,
                   out_behaviorPreferences = bp, out_weights = nw, testMode = tm,
                   user_debug = (if dbg
                                 then Some \<lparr>userTraitVector = userTraitVec,
                                             userEmbeddingLength = length userEmbedding,
                                             adjustments = adj, prompt = userPrompt\<rparr>
                                 else None)\<rparr>,
          recommendations = Array_sort byFinalScoreDesc results\<rparr>)"

text \<open>
  \<open>computeRecommendations\<close> returns its outcome (\<open>Inl\<close>: it throws; \<open>Inr None\<close>: it
  returns \<open>null\<close>) together with the calls it has made to its collaborators, in order.
\<close>

datatype call = User_findUnique int | GenerateEmbedding string | Vendor_findMany

definition computeRecommendations ::
  "Env \<Rightarrow> Database \<Rightarrow> int \<Rightarrow> bool \<Rightarrow> string option \<Rightarrow> bool \<Rightarrow>
   (error + Recommendations option) \<times> call list" where
  "computeRecommendations env db uid tm adjustmentsRaw dbg =
     (case user_findUnique db uid of
        None \<Rightarrow> (Inr None, [User_findUnique uid])
      | Some u \<Rightarrow>
          (case parseAdjustments env adjustmentsRaw of
             Inl e \<Rightarrow> (Inl e, [User_findUnique uid])
           | Inr adj \<Rightarrow>
               (let userRows = user_interactions db uid;
                    userPrompt = buildUserPromptFromTraits env (user_name u)
                                   (effectiveTraits adj (user_traits u))
                                   (effectiveBehaviorPreferences adj u)
                in if tm \<or> adj \<noteq> None
                   then (case generateEmbedding env userPrompt of
                           None \<Rightarrow>
                             (Inl InternalServerErrorException,
                              [User_findUnique uid, GenerateEmbedding userPrompt])
                         | Some fresh \<Rightarrow>
                             (Inr (Some (rankVendors env db tm dbg u userRows adj fresh)),
                              [User_findUnique uid, GenerateEmbedding userPrompt,
                               Vendor_findMany]))
                   else (Inr (Some (rankVendors env db tm dbg u userRows adj
                                      (user_embedding u))),
                         [User_findUnique uid, Vendor_findMany]))))"

definition getRecommendations ::
  "Env \<Rightarrow> Database \<Rightarrow> int \<Rightarrow> bool \<Rightarrow> string option \<Rightarrow>
   (error + Recommendations option) \<times> call list" where
  "getRecommendations env db uid tm adjustmentsRaw =
     computeRecommendations env db uid tm adjustmentsRaw False"

definition getRecommendationsDebug ::
  "Env \<Rightarrow> Database \<Rightarrow> int \<Rightarrow> bool \<Rightarrow> string option \<Rightarrow>
   (error + Recommendations option) \<times> call list" where
  "getRecommendationsDebug env db uid tm adjustmentsRaw =
     computeRecommendations env db uid tm adjustmentsRaw True"


section \<open>The behavior score in the spec's words\<close>

text \<open>
  The similarities of the target vendor to the liked vendors whose trait vector is in
  the map; the direct score, the collaborative aggregate (their average) and the
  behavior score as section 4.3 of the specification words them.
\<close>

definition resolved_similarities ::
  "real list \<Rightarrow> (int \<Rightarrow> real list option) \<Rightarrow> InteractionSummary list \<Rightarrow> real list" where
  "resolved_similarities v m ls =
     List.map_filter
       (\<lambda>l. map_option (computeTraitSimilarity v) (m (vendorId l)))
       ls"

definition spec_directScore :: "int \<Rightarrow> InteractionSummary list \<Rightarrow> real" where
  "spec_directScore vid userInteractions =
     (if list_ex (\<lambda>i. vendorId i = vid \<and> liked i) userInteractions then 1 else 0)"

definition spec_collaborativeAggregate ::
  "InteractionSummary list \<Rightarrow> real list \<Rightarrow> (int \<Rightarrow> real list option) \<Rightarrow> real" where
  "spec_collaborativeAggregate userInteractions v m =
     (let sims = resolved_similarities v m
                   (filter liked userInteractions)
      in if sims = [] then 0 else sum_list sims / real (length sims))"

definition spec_behaviorScore ::
  "int \<Rightarrow> InteractionSummary list \<Rightarrow> real list \<Rightarrow> (int \<Rightarrow> real list option) \<Rightarrow> real" where
  "spec_behaviorScore vid userInteractions v m =
     6 / 10 * spec_directScore vid userInteractions
     + 4 / 10 * spec_collaborativeAggregate userInteractions v
                  m"


section \<open>Sample data\<close>

text \<open>The vendor trait vector of the specification's scenario A, and two liked interactions.\<close>

definition traitsV :: "real list" where
  "traitsV = [2, 1, 3, 4, 2, 2, 3, 5, 2, 2, 2, 5]"

definition twoLikes :: "InteractionSummary list" where
  "twoLikes = [\<lparr>vendorId = 10, liked = True, score = None\<rparr>,
               \<lparr>vendorId = 11, liked = True, score = Some 4\<rparr>]"


text \<open>
  A user with the traits of scenario A, two vendors (\<open>W\<close> is stored before \<open>V\<close>), and one
  liked interaction of the user with \<open>V\<close>.
\<close>

definition sampleUser :: User where
  "sampleUser =
     \<lparr>user_id = 1, user_name = ''Ada'',
      user_traits = \<lparr>adventurous = 5, decisive = 4, eccentric = 3, flexible = 4, loyal = 3,
                      optimistic = 5, patient = 2, perfectionist = 2, punctual = 3\<rparr>,
      user_embedding = [Fin 1, Fin 0], user_behaviorPreferences = None, isTestUser = False\<rparr>"

definition vendorV :: Vendor where
  "vendorV =
     \<lparr>vendor_id = 10, vendor_name = ''V'', description = None,
      vendor_embedding = [Fin 1, Fin 0],
      vendor_traits = \<lparr>serviceQuality = 2, interactionStyle = 1, serviceConduct = 3,
                        expertise = 4, environment = 2, atmosphere = 2, design = 3,
                        hospitality = 5, outcomeQuality = 2, waitingTime = 2,
                        physicalElements = 2, experienceTone = 5\<rparr>\<rparr>"

definition vendorW :: Vendor where
  "vendorW =
     \<lparr>vendor_id = 11, vendor_name = ''W'', description = Some ''Quiet'',
      vendor_embedding = [Fin 0, Fin 1],
      vendor_traits = \<lparr>serviceQuality = 0, interactionStyle = 0, serviceConduct = 0,
                        expertise = 0, environment = 0, atmosphere = 0, design = 0,
                        hospitality = 0, outcomeQuality = 0, waitingTime = 0,
                        physicalElements = 0, experienceTone = 0\<rparr>\<rparr>"

definition sampleDb :: Database where
  "sampleDb =
     \<lparr>users = [sampleUser], vendors = [vendorW, vendorV],
      interactions = [\<lparr>vendorId = 10, liked = True, score = Some 4, userId = 1,
                       interactionId = 1\<rparr>],
      nextInteractionId = 2\<rparr>"

text \<open>
  The same store with an infinite component in the stored embedding of \<open>V\<close>.
\<close>

definition infiniteDb :: Database where
  "infiniteDb = sampleDb\<lparr>vendors := [vendorW, vendorV\<lparr>vendor_embedding := [PInf, Fin 0]\<rparr>]\<rparr>"

text \<open>
  Test doubles for the library functions and the embedding collaborator.
  \<open>stub_JSON_parse\<close> is the table of what \<open>JSON.parse\<close> returns on the payloads used
  below (\<open>{}\<close>, \<open>{"Adventurous":7}\<close>, \<open>{"traitWeight":1.5}\<close>, \<open>{"Loyal":"high"}\<close>); every
  other text is taken as unparseable. \<open>stub_numberToString\<close> covers the integers \<open>0\<close> to
  \<open>5\<close>, the trait values of the sample.
\<close>

definition quoted :: "string \<Rightarrow> string" where
  "quoted s = CHR 0x22 # s @ [CHR 0x22]"

definition payloadTrait7 :: string where
  "payloadTrait7 = ''{'' @ quoted ''Adventurous'' @ '':7}''"

definition payloadWeight :: string where
  "payloadWeight = ''{'' @ quoted ''traitWeight'' @ '':1.5}''"

definition payloadWrongType :: string where
  "payloadWrongType = ''{'' @ quoted ''Loyal'' @ '':'' @ quoted ''high'' @ ''}''"

definition stub_JSON_parse :: "string \<Rightarrow> json option" where
  "stub_JSON_parse raw =
     map_of [(''{}'', JObj []),
             (payloadTrait7, JObj [(''Adventurous'', JNum 7)]),
             (payloadWeight, JObj [(''traitWeight'', JNum (3 / 2))]),
             (payloadWrongType, JObj [(''Loyal'', JStr ''high'')])] raw"

definition stub_numberToString :: "real \<Rightarrow> string" where
  "stub_numberToString r =
     (if r = 0 then ''0'' else if r = 1 then ''1'' else if r = 2 then ''2''
      else if r = 3 then ''3'' else if r = 4 then ''4'' else if r = 5 then ''5'' else ''?'')"

definition stubEnv :: Env where
  "stubEnv = \<lparr>JSON_parse = stub_JSON_parse, JSON_stringify = (\<lambda>j. ''{}''),
              numberToString = stub_numberToString,
              generateEmbedding = (\<lambda>text. Some [Fin 0, Fin 1])\<rparr>"

text \<open>The adjustments object with no field supplied, and the keys of the overrides.\<close>

definition noAdjustments :: AdjustmentsInput where
  "noAdjustments =
     \<lparr>Adventurous = None, Decisive = None, Eccentric = None, Flexible = None, Loyal = None,
      Optimistic = None, Patient = None, Perfectionist = None, Punctual = None,
      embeddingWeight = None, traitWeight = None, behaviorWeight = None,
      behaviorPreferences = None\<rparr>"

definition traitOverrideKeys :: "string list" where
  "traitOverrideKeys =
     [''Adventurous'', ''Decisive'', ''Eccentric'', ''Flexible'', ''Loyal'', ''Optimistic'',
      ''Patient'', ''Perfectionist'', ''Punctual'']"

definition weightOverrideKeys :: "string list" where
  "weightOverrideKeys = [''embeddingWeight'', ''traitWeight'', ''behaviorWeight'']"


section \<open>Properties of the vector utilities\<close>

lemma fold_cosine_step:
  "fold cosine_step (zip a b) (d, na, nb) =
     (d + dot_product a b,
      na + (\<Sum>x\<leftarrow>map fst (zip a b). x * x),
      nb + (\<Sum>y\<leftarrow>map snd (zip a b). y * y))"
  by (induction a b arbitrary: d na nb rule: list_induct2')
     (simp_all add: cosine_step_def dot_product_def algebra_simps)

lemma fold_cosine_step_eq_length:
  assumes "length a = length b"
  shows "fold cosine_step (zip a b) (0, 0, 0) =
           (dot_product a b, (\<Sum>x\<leftarrow>a. x * x), (\<Sum>y\<leftarrow>b. y * y))"
  using assms by (simp add: fold_cosine_step)

lemma sum_squares_nonneg: "0 \<le> (\<Sum>x\<leftarrow>(a::real list). x * x)"
  by (induction a) auto

lemma l2_norm_eq_0_iff: "l2_norm a = 0 \<longleftrightarrow> (\<Sum>x\<leftarrow>a. x * x) = 0"
  by (simp add: l2_norm_def)

lemma cosineSimilarity_formula:
  "cosineSimilarity a b =
     (if a = [] \<or> b = [] \<or> length a \<noteq> length b \<or> l2_norm a = 0 \<or> l2_norm b = 0 then 0
      else dot_product a b / (l2_norm a * l2_norm b))"
  by (auto simp: cosineSimilarity_def fold_cosine_step_eq_length l2_norm_eq_0_iff l2_norm_def)

lemma fold_cosine_step_num_Fin:
  "fold cosine_step_num (zip (map Fin a) (map Fin b)) (Fin d, Fin na, Fin nb) =
     (case fold cosine_step (zip a b) (d, na, nb) of (d', na', nb') \<Rightarrow> (Fin d', Fin na', Fin nb'))"
  by (induction a b arbitrary: d na nb rule: list_induct2')
     (simp_all add: cosine_step_def cosine_step_num_def)

lemma cosineSimilarity_Fin:
  "cosineSimilarity_num (map Fin a) (map Fin b) = Fin (cosineSimilarity a b)"
proof (cases "length a = 0 \<or> length b = 0 \<or> length a \<noteq> length b")
  case True
  then show ?thesis by (auto simp: cosineSimilarity_num_def cosineSimilarity_def)
next
  case False
  then have len: "length a = length b" by simp
  obtain d na nb where f: "fold cosine_step (zip a b) (0, 0, 0) = (d, na, nb)"
    by (cases "fold cosine_step (zip a b) (0, 0, 0)") auto
  have na: "0 \<le> na" and nb: "0 \<le> nb"
    using f fold_cosine_step_eq_length[OF len] sum_squares_nonneg by auto
  have "sqrt na * sqrt nb \<noteq> 0" if "na \<noteq> 0" "nb \<noteq> 0"
    using that by simp
  with False f na nb show ?thesis
    by (simp add: cosineSimilarity_num_def cosineSimilarity_def fold_cosine_step_num_Fin)
qed

lemma num_mul_commute: "num_mul x y = num_mul y x"
  by (cases x; cases y) (simp_all add: mult.commute)

lemma fold_cosine_step_num_swap:
  "fold cosine_step_num (zip b a) (d, nb, na) =
     (case fold cosine_step_num (zip a b) (d, na, nb) of (d', na', nb') \<Rightarrow> (d', nb', na'))"
  by (induction a b arbitrary: d na nb rule: list_induct2')
     (simp_all add: cosine_step_num_def num_mul_commute)

lemma fold_cosine_step_swap:
  "fold cosine_step (zip b a) (d, nb, na) =
     (case fold cosine_step (zip a b) (d, na, nb) of (d', na', nb') \<Rightarrow> (d', nb', na'))"
  by (induction a b arbitrary: d na nb rule: list_induct2')
     (simp_all add: cosine_step_def mult.commute)

lemma cosineSimilarity_num_commute: "cosineSimilarity_num a b = cosineSimilarity_num b a"
proof (cases "length a = 0 \<or> length b = 0 \<or> length a \<noteq> length b")
  case True
  then have "length b = 0 \<or> length a = 0 \<or> length b \<noteq> length a" by auto
  with True show ?thesis unfolding cosineSimilarity_num_def by (simp only: if_True)
next
  case False
  then have F': "\<not> (length b = 0 \<or> length a = 0 \<or> length b \<noteq> length a)" by auto
  obtain d na nb where f: "fold cosine_step_num (zip a b) (Fin 0, Fin 0, Fin 0) = (d, na, nb)"
    by (cases "fold cosine_step_num (zip a b) (Fin 0, Fin 0, Fin 0)") auto
  then have g: "fold cosine_step_num (zip b a) (Fin 0, Fin 0, Fin 0) = (d, nb, na)"
    by (simp only: fold_cosine_step_num_swap[where a=a and b=b] prod.case)
  have "cosineSimilarity_num a b =
          (if falsy na \<or> falsy nb then Fin 0
           else num_div d (num_mul (Math_sqrt na) (Math_sqrt nb)))"
    unfolding cosineSimilarity_num_def by (simp only: False if_False f prod.case)
  moreover have "cosineSimilarity_num b a =
          (if falsy nb \<or> falsy na then Fin 0
           else num_div d (num_mul (Math_sqrt nb) (Math_sqrt na)))"
    unfolding cosineSimilarity_num_def by (simp only: F' if_False g prod.case)
  ultimately show ?thesis
    by (simp only: num_mul_commute[of "Math_sqrt nb"] disj_commute[of "falsy nb"])
qed

lemma cosineSimilarity_commute: "cosineSimilarity a b = cosineSimilarity b a"
proof (cases "length a = 0 \<or> length b = 0 \<or> length a \<noteq> length b")
  case True
  then have "length b = 0 \<or> length a = 0 \<or> length b \<noteq> length a" by auto
  with True show ?thesis unfolding cosineSimilarity_def by (simp only: if_True)
next
  case False
  then have F': "\<not> (length b = 0 \<or> length a = 0 \<or> length b \<noteq> length a)" by auto
  obtain d na nb where f: "fold cosine_step (zip a b) (0, 0, 0) = (d, na, nb)"
    by (cases "fold cosine_step (zip a b) (0, 0, 0)") auto
  then have g: "fold cosine_step (zip b a) (0, 0, 0) = (d, nb, na)"
    by (simp only: fold_cosine_step_swap[where a=a and b=b] prod.case)
  have "cosineSimilarity a b =
          (if na = 0 \<or> nb = 0 then 0 else d / (sqrt na * sqrt nb))"
    unfolding cosineSimilarity_def by (simp only: False if_False f prod.case)
  moreover have "cosineSimilarity b a =
          (if nb = 0 \<or> na = 0 then 0 else d / (sqrt nb * sqrt na))"
    unfolding cosineSimilarity_def by (simp only: F' if_False g prod.case)
  ultimately show ?thesis
    by (simp only: mult.commute[of "sqrt nb"] disj_commute[of "nb = 0"])
qed

text \<open>
  C9. For all vectors \<open>a\<close> and \<open>b\<close>, \<open>cosineSimilarity(a, b)\<close> equals
  \<open>cosineSimilarity(b, a)\<close>: for vectors of arbitrary numbers (infinities and \<open>NaN\<close>
  included, where both calls return the same value) and, in particular, in the model
  over the reals.
\<close>

theorem cosineSimilarity_symmetric:
  "cosineSimilarity_num a b = cosineSimilarity_num b a \<and>
   cosineSimilarity x y = cosineSimilarity y x"
  using cosineSimilarity_num_commute cosineSimilarity_commute by (rule conjI)

text \<open>
  \<open>cosineSimilarity([Infinity], [1])\<close>: the lengths agree, \<open>dot\<close> and \<open>normA\<close> are
  \<open>Infinity\<close>, \<open>normB\<close> is \<open>1\<close>, neither norm is falsy, and
  \<open>Infinity / (Infinity * 1)\<close> is \<open>NaN\<close>.
\<close>

theorem cosineSimilarity_Infinity_NaN:
  "cosineSimilarity_num [PInf] [Fin 1] = NaN \<and> \<not> is_finite (cosineSimilarity_num [PInf] [Fin 1])"
  by (simp add: cosineSimilarity_num_def cosine_step_num_def signed_inf_def)

text \<open>
  C5, amended. \<open>cosineSimilarity(a, b)\<close> returns exactly \<open>0\<close> when either vector is
  empty or the lengths differ, whatever the numbers are. For vectors \<open>x\<close>, \<open>y\<close> of finite
  numbers (arithmetic on finite numbers taken as exact) it returns \<open>0\<close> when either
  vector is empty, the lengths differ or either L2 norm is \<open>0\<close>, in all other cases
  the dot product divided by the product of the L2 norms, and the result is a finite
  number.
\<close>

theorem cosineSimilarity_finite_input:
  "(a = [] \<or> b = [] \<or> length a \<noteq> length b \<longrightarrow> cosineSimilarity_num a b = Fin 0) \<and>
   cosineSimilarity_num (map Fin x) (map Fin y) =
     Fin (if x = [] \<or> y = [] \<or> length x \<noteq> length y \<or> l2_norm x = 0 \<or> l2_norm y = 0 then 0
          else dot_product x y / (l2_norm x * l2_norm y)) \<and>
   is_finite (cosineSimilarity_num (map Fin x) (map Fin y))"
  by (simp add: cosineSimilarity_Fin cosineSimilarity_formula)
     (auto simp: cosineSimilarity_num_def)

theorem cosineSimilarity_finite_input_witness:
  "cosineSimilarity_num [] [Fin 1] = Fin 0 \<and>
   cosineSimilarity_num [Fin 3, Fin 4] [Fin 3, Fin 4] = Fin 1 \<and>
   cosineSimilarity_num [Fin 0, Fin 0] [Fin 3, Fin 4] = Fin 0"
  using cosineSimilarity_finite_input [of "[]" "[Fin 1]" "[3, 4]" "[3, 4]"]
        cosineSimilarity_finite_input [of "[]" "[Fin 1]" "[0, 0]" "[3, 4]"]
  by (simp add: l2_norm_def dot_product_def)

lemma Math_max_eq_Max: "v \<noteq> [] \<Longrightarrow> Math_max v = Some (Max (set v))"
  by (cases v) (simp_all add: Max.set_eq_fold del: set_simps)

lemma fold_num_max_Fin: "fold num_max (map Fin vs) (Fin a) = Fin (fold max vs a)"
  by (induction vs arbitrary: a) (simp_all add: num_max_def max_def)

lemma Math_max_num_Fin:
  "Math_max_num (map Fin v) = (case Math_max v of None \<Rightarrow> NInf | Some mx \<Rightarrow> Fin mx)"
  by (cases v) (simp_all add: Math_max_num_def num_max_def fold_num_max_Fin)

lemma normalizeVector_Fin: "normalizeVector_num (map Fin v) = map Fin (normalizeVector v)"
proof (cases "Math_max v")
  case None
  then have "v = []" by (cases v) simp_all
  then show ?thesis
    by (simp add: normalizeVector_num_def normalizeVector_def Math_max_num_def)
next
  case (Some mx)
  then have "Math_max_num (map Fin v) = Fin mx"
    by (simp add: Math_max_num_Fin)
  with Some show ?thesis
    by (simp add: normalizeVector_num_def normalizeVector_def)
qed

text \<open>
  With an infinite component the maximum is \<open>Infinity\<close>, and \<open>Infinity / Infinity\<close> is
  \<open>NaN\<close>: the statements below are about vectors of finite numbers.
\<close>

lemma normalizeVector_num_Infinity: "normalizeVector_num [PInf, Fin 1] = [NaN, Fin 0]"
  by (simp add: normalizeVector_num_def Math_max_num_def num_max_def)

text \<open>
  \<open>normalizeVector([-1, -2])\<close>: the maximum is \<open>-1\<close>, so the result is \<open>[1, 2]\<close>, whose
  maximum component \<open>2\<close> exceeds \<open>1\<close>.
\<close>

theorem normalizeVector_negative_max:
  "normalizeVector [- 1, - 2] = [1, 2] \<and> Math_max (normalizeVector [- 1, - 2]) = Some 2"
  by (simp add: normalizeVector_def)

text \<open>
  C6, amended. For every non-empty vector \<open>v\<close> of finite numbers (arithmetic on finite
  numbers taken as exact), \<open>normalizeVector(v)\<close> divides every component by the maximum
  component when that maximum is not \<open>0\<close> and returns a vector of zeros when it is
  \<open>0\<close>; when the maximum component is not negative (in particular for vectors of
  non-negative numbers) the result has maximum component at most \<open>1\<close>; and
  \<open>normalizeVector\<close> of a zero vector is that zero vector. (The first conjunct carries
  the statements, made over the reals, to the function on numbers at finite input.)
\<close>

theorem normalizeVector_spec:
  "normalizeVector_num (map Fin v) = map Fin (normalizeVector v) \<and>
   (v \<noteq> [] \<and> Max (set v) \<noteq> 0 \<longrightarrow> normalizeVector v = map (\<lambda>x. x / Max (set v)) v) \<and>
   (v \<noteq> [] \<and> Max (set v) = 0 \<longrightarrow> normalizeVector v = map (\<lambda>x. 0) v) \<and>
   (v \<noteq> [] \<and> 0 \<le> Max (set v) \<longrightarrow> Max (set (normalizeVector v)) \<le> 1) \<and>
   normalizeVector (replicate n 0) = replicate n 0"
proof (intro conjI impI)
  show "normalizeVector_num (map Fin v) = map Fin (normalizeVector v)"
    by (rule normalizeVector_Fin)
next
  assume "v \<noteq> [] \<and> Max (set v) \<noteq> 0"
  then show "normalizeVector v = map (\<lambda>x. x / Max (set v)) v"
    by (simp add: normalizeVector_def Math_max_eq_Max)
next
  assume "v \<noteq> [] \<and> Max (set v) = 0"
  then show "normalizeVector v = map (\<lambda>x. 0) v"
    by (simp add: normalizeVector_def Math_max_eq_Max)
next
  assume h: "v \<noteq> [] \<and> 0 \<le> Max (set v)"
  let ?m = "Max (set v)"
  have le: "x \<le> ?m" if "x \<in> set v" for x using that by simp
  have "y \<le> 1" if "y \<in> set (normalizeVector v)" for y
  proof (cases "?m = 0")
    case True
    with h that show ?thesis by (auto simp: normalizeVector_def Math_max_eq_Max)
  next
    case False
    with h have pos: "0 < ?m" by simp
    from h False that obtain x where "x \<in> set v" "y = x / ?m"
      by (auto simp: normalizeVector_def Math_max_eq_Max)
    with le[of x] pos show ?thesis by (simp add: divide_le_eq)
  qed
  moreover have "normalizeVector v \<noteq> []"
    using h by (auto simp: normalizeVector_def Math_max_eq_Max)
  ultimately show "Max (set (normalizeVector v)) \<le> 1" by simp
next
  show "normalizeVector (replicate n 0) = replicate n 0"
  proof (cases n)
    case 0
    then show ?thesis by (simp add: normalizeVector_def)
  next
    case (Suc k)
    then have "replicate n (0::real) \<noteq> []" by simp
    moreover have "set (replicate n (0::real)) = {0}" using Suc by (subst set_replicate) auto
    then have "Max (set (replicate n (0::real))) = 0" by simp
    ultimately show ?thesis
      by (simp add: normalizeVector_def Math_max_eq_Max map_replicate_const)
  qed
qed

theorem normalizeVector_spec_witness:
  "normalizeVector_num [Fin 2, Fin 4] = [Fin (1 / 2), Fin 1] \<and>
   normalizeVector [2, 4] = [1 / 2, 1] \<and> normalizeVector [0, - 3] = [0, 0] \<and>
   Max (set (normalizeVector [2, 4])) \<le> 1 \<and> normalizeVector [0, 0, 0] = [0, 0, 0]"
  using normalizeVector_spec [of "[2, 4]" 3] normalizeVector_spec [of "[0, - 3]" 3]
  by (simp add: numeral_3_eq_3)


section \<open>The behavior score\<close>

lemma fold_similarity_step:
  "fold (similarity_step v m) ls acc = acc + sum_list (resolved_similarities v m ls)"
  by (induction ls arbitrary: acc)
     (auto simp: similarity_step_def resolved_similarities_def
           split: option.splits)

lemma find_distinct_liked:
  "distinct (map vendorId xs) \<Longrightarrow>
     (case find (\<lambda>i. vendorId i = vid) xs of Some i \<Rightarrow> if liked i then 1 else 0 | None \<Rightarrow> (0::real))
       = spec_directScore vid xs"
  by (induction xs) (auto simp: spec_directScore_def list_ex_iff image_iff)

lemma computeTraitSimilarity_traitsV: "computeTraitSimilarity traitsV traitsV = 1"
  by (simp add: computeTraitSimilarity_def traitsV_def normalizeVector_def cosineSimilarity_def
        cosine_step_def)

text \<open>
  Two liked interactions, one of whose vendors (11) has no trait vector in the map:
  the only available similarity is \<open>1\<close>, so the average of the available similarities
  is \<open>1\<close> and the specification's score is \<open>0.4\<close>; the code divides the total \<open>1\<close> by
  the two liked interactions and returns \<open>0.2\<close>.
\<close>

theorem behaviorScore_unresolved_liked_vendor:
  "computeBehaviorScoreForVendor 12 twoLikes traitsV [10 \<mapsto> traitsV] = 2 / 10 \<and>
   spec_behaviorScore 12 twoLikes traitsV [10 \<mapsto> traitsV] = 4 / 10"
  by (simp add: computeBehaviorScoreForVendor_def spec_behaviorScore_def spec_directScore_def
        spec_collaborativeAggregate_def resolved_similarities_def
        similarity_step_def twoLikes_def computeTraitSimilarity_traitsV)

text \<open>
  C1, amended. The behavior score is \<open>0.6 * directScore + 0.4 * aggregate\<close>, where
  \<open>directScore\<close> is \<open>1\<close> if the interaction found for the vendor is liked and \<open>0\<close>
  otherwise (with at most one interaction per vendor: if a liked interaction for the
  vendor exists; the rating is not used), and \<open>aggregate\<close> is the sum of the trait
  similarities between the target vendor and each liked vendor whose trait vector is in
  the map, divided by the number of all liked interactions; it is \<open>0\<close> when the user has
  no liked interaction or no liked vendor has a trait vector in the map.
\<close>

theorem computeBehaviorScoreForVendor_formula:
  "computeBehaviorScoreForVendor vid userInteractions v m =
     6 / 10 * (case find (\<lambda>i. vendorId i = vid) userInteractions of
                 Some i \<Rightarrow> if liked i then 1 else 0
               | None \<Rightarrow> 0)
     + 4 / 10 * (if filter liked userInteractions = [] then 0
                 else sum_list (resolved_similarities v m (filter liked userInteractions))
                        / real (length (filter liked userInteractions)))
   \<and> (distinct (map vendorId userInteractions) \<longrightarrow>
        (case find (\<lambda>i. vendorId i = vid) userInteractions of
           Some i \<Rightarrow> if liked i then 1 else 0
         | None \<Rightarrow> (0::real)) = spec_directScore vid userInteractions)
   \<and> (filter liked userInteractions = [] \<or>
        resolved_similarities v m (filter liked userInteractions) = [] \<longrightarrow>
        computeBehaviorScoreForVendor vid userInteractions v m =
          6 / 10 * (case find (\<lambda>i. vendorId i = vid) userInteractions of
                      Some i \<Rightarrow> if liked i then 1 else 0
                    | None \<Rightarrow> 0))"
  by (auto simp: computeBehaviorScoreForVendor_def Let_def fold_similarity_step find_distinct_liked)

theorem computeBehaviorScoreForVendor_formula_witness:
  "computeBehaviorScoreForVendor 10 twoLikes traitsV [10 \<mapsto> traitsV, 11 \<mapsto> traitsV] = 1 \<and>
   spec_directScore 10 twoLikes = 1 \<and>
   computeBehaviorScoreForVendor 12 [] traitsV Map.empty = 0"
  using computeBehaviorScoreForVendor_formula [of 10 twoLikes traitsV "[10 \<mapsto> traitsV, 11 \<mapsto> traitsV]"]
        computeBehaviorScoreForVendor_formula [of 12 "[]" traitsV Map.empty]
  by (simp add: twoLikes_def resolved_similarities_def
        computeTraitSimilarity_traitsV spec_directScore_def)


section \<open>Weight normalisation\<close>

text \<open>
  C3. For every raw weight triple with each component in \<open>[0,1]\<close>: if the sum is greater
  than \<open>0\<close>, each output weight is the raw weight divided by the sum and the normalized
  triple sums to \<open>1\<close>; if the sum is \<open>0\<close>, the divisor used is \<open>1\<close>, so each output weight
  equals its raw value (all zeros); the divisor is never \<open>0\<close>.
\<close>

theorem normalizedWeights_spec:
  assumes "0 \<le> e" "e \<le> 1" "0 \<le> t" "t \<le> 1" "0 \<le> b" "b \<le> 1"
  shows "(0 < e + t + b \<longrightarrow>
            normalizedWeights \<lparr>embedding = e, traits = t, behavior = b\<rparr> =
              \<lparr>embedding = e / (e + t + b), traits = t / (e + t + b),
               behavior = b / (e + t + b)\<rparr> \<and>
            e / (e + t + b) + t / (e + t + b) + b / (e + t + b) = 1) \<and>
         (e + t + b = 0 \<longrightarrow>
            weightSum \<lparr>embedding = e, traits = t, behavior = b\<rparr> = 1 \<and>
            normalizedWeights \<lparr>embedding = e, traits = t, behavior = b\<rparr> =
              \<lparr>embedding = e, traits = t, behavior = b\<rparr> \<and>
            e = 0 \<and> t = 0 \<and> b = 0) \<and>
         weightSum \<lparr>embedding = e, traits = t, behavior = b\<rparr> \<noteq> 0"
proof (intro conjI impI)
  assume pos: "0 < e + t + b"
  then show "normalizedWeights \<lparr>embedding = e, traits = t, behavior = b\<rparr> =
      \<lparr>embedding = e / (e + t + b), traits = t / (e + t + b), behavior = b / (e + t + b)\<rparr>"
    by (simp add: normalizedWeights_def weightSum_def)
  have "e / (e + t + b) + t / (e + t + b) + b / (e + t + b) = (e + t + b) / (e + t + b)"
    by (simp only: add_divide_distrib)
  also have "\<dots> = 1" using pos by simp
  finally show "e / (e + t + b) + t / (e + t + b) + b / (e + t + b) = 1" .
next
  assume z: "e + t + b = 0"
  then show "weightSum \<lparr>embedding = e, traits = t, behavior = b\<rparr> = 1"
    by (simp add: weightSum_def)
  then show "normalizedWeights \<lparr>embedding = e, traits = t, behavior = b\<rparr> =
      \<lparr>embedding = e, traits = t, behavior = b\<rparr>"
    by (simp add: normalizedWeights_def)
  from z assms show "e = 0" "t = 0" "b = 0" by linarith+
next
  show "weightSum \<lparr>embedding = e, traits = t, behavior = b\<rparr> \<noteq> 0"
    by (simp add: weightSum_def Let_def)
qed

theorem normalizedWeights_spec_witness:
  "normalizedWeights defaultWeights = defaultWeights \<and>
   normalizedWeights \<lparr>embedding = 1, traits = 1, behavior = 0\<rparr> =
     \<lparr>embedding = 1 / 2, traits = 1 / 2, behavior = 0\<rparr> \<and>
   normalizedWeights \<lparr>embedding = 0, traits = 0, behavior = 0\<rparr> =
     \<lparr>embedding = 0, traits = 0, behavior = 0\<rparr>"
  using normalizedWeights_spec [of "5 / 10" "3 / 10" "2 / 10"]
        normalizedWeights_spec [of 1 1 0] normalizedWeights_spec [of 0 0 0]
  by (simp add: defaultWeights_def)

text \<open>
  The weights that \<open>computeRecommendations\<close> normalises are within \<open>[0,1]\<close>: a default,
  or an override that the schema has accepted.
\<close>

lemma zod_number_optional_range:
  "zod_number_optional lo hi v = Some (Some r) \<Longrightarrow> lo \<le> r \<and> r \<le> hi"
  by (auto simp: zod_number_optional_def split: option.splits json.splits if_splits)

lemma adjustmentsSchema_weights_range:
  assumes "adjustmentsSchema j = Some a"
  shows "(\<forall>r. embeddingWeight a = Some r \<longrightarrow> 0 \<le> r \<and> r \<le> 1) \<and>
         (\<forall>r. traitWeight a = Some r \<longrightarrow> 0 \<le> r \<and> r \<le> 1) \<and>
         (\<forall>r. behaviorWeight a = Some r \<longrightarrow> 0 \<le> r \<and> r \<le> 1)"
proof (cases j)
  case (JObj obj)
  with assms show ?thesis
    unfolding adjustmentsSchema_def
    by (auto simp: bind_eq_Some_conv dest!: zod_number_optional_range)
qed (use assms in \<open>simp_all add: adjustmentsSchema_def\<close>)

lemma effectiveWeights_range:
  assumes "parseAdjustments env adjustmentsRaw = Inr adj"
  shows "0 \<le> embedding (effectiveWeights adj) \<and> embedding (effectiveWeights adj) \<le> 1 \<and>
         0 \<le> traits (effectiveWeights adj) \<and> traits (effectiveWeights adj) \<le> 1 \<and>
         0 \<le> behavior (effectiveWeights adj) \<and> behavior (effectiveWeights adj) \<le> 1"
proof (cases adj)
  case None
  then show ?thesis by (simp add: effectiveWeights_def override_def defaultWeights_def)
next
  case (Some a)
  with assms obtain j where "adjustmentsSchema j = Some a"
    by (auto simp: parseAdjustments_def split: option.splits if_splits)
  from adjustmentsSchema_weights_range[OF this] Some show ?thesis
    by (auto simp: effectiveWeights_def override_def defaultWeights_def split: option.splits)
qed


section \<open>Interactions\<close>

lemma find_map_update:
  "find P xs = Some old \<Longrightarrow> P (f old) \<Longrightarrow>
     find P (map (\<lambda>i. if P i then f i else i) xs) = Some (f old)"
  by (induction xs) (auto split: if_splits)

text \<open>
  C10. When the user and the vendor exist and an interaction of the pair is stored,
  \<open>upsertInteraction\<close> returns the stored record of the pair with \<open>liked\<close> overwritten by
  the input value and \<open>score\<close> overwritten by the input score when supplied and by
  \<open>null\<close> when it is omitted; the record keeps its id and no record is added.
\<close>

theorem upsertInteraction_overwrites:
  assumes "user_findUnique db (userId input) = Some u"
      and "vendor_findUnique db (vendorId input) = Some v"
      and "find (\<lambda>i. (userId i, vendorId i) = (userId input, vendorId input)) (interactions db)
             = Some old"
      and "upsertInteraction db input = (res, db')"
  shows "\<exists>row. res = Some row \<and>
           find (\<lambda>i. (userId i, vendorId i) = (userId input, vendorId input)) (interactions db')
             = Some row \<and>
           liked row = liked input \<and>
           score row = (case score input of Some s \<Rightarrow> Some s | None \<Rightarrow> None) \<and>
           interactionId row = interactionId old \<and>
           length (interactions db') = length (interactions db)"
proof -
  let ?P = "\<lambda>i::Interaction. (userId i, vendorId i) = (userId input, vendorId input)"
  let ?u = "\<lparr>upd_liked = Some (liked input), upd_score = Some (score_or_null (score input))\<rparr>"
  have keep: "?P (apply_update ?u old)"
    using find_Some_iff[THEN iffD1, OF assms(3)] by (auto simp: apply_update_def)
  have res: "res = Some (apply_update ?u old)"
    and db': "db' = db\<lparr>interactions := map (\<lambda>i. if ?P i then apply_update ?u i else i)
                                          (interactions db)\<rparr>"
    using assms by (auto simp: upsertInteraction_def interaction_upsert_def Let_def)
  have "find ?P (interactions db') = Some (apply_update ?u old)"
    unfolding db' using find_map_update[of ?P "interactions db" old "apply_update ?u", OF assms(3) keep]
    by simp
  with res db' show ?thesis
    by (simp add: apply_update_def score_or_null_def)
qed

theorem upsertInteraction_overwrites_witness:
  "upsertInteraction sampleDb \<lparr>vendorId = 10, liked = False, score = None, userId = 1\<rparr> =
     (Some \<lparr>vendorId = 10, liked = False, score = None, userId = 1, interactionId = 1\<rparr>,
      sampleDb\<lparr>interactions :=
                 [\<lparr>vendorId = 10, liked = False, score = None, userId = 1,
                   interactionId = 1\<rparr>]\<rparr>)"
proof -
  let ?input = "\<lparr>vendorId = 10, liked = False, score = None, userId = 1\<rparr>"
  obtain res db' where r: "upsertInteraction sampleDb ?input = (res, db')"
    by (cases "upsertInteraction sampleDb ?input")
  have "user_findUnique sampleDb (userId ?input) = Some sampleUser"
    by (simp add: user_findUnique_def sampleDb_def sampleUser_def)
  moreover have "vendor_findUnique sampleDb (vendorId ?input) = Some vendorV"
    by (simp add: vendor_findUnique_def sampleDb_def vendorV_def vendorW_def)
  moreover have "find (\<lambda>i. (userId i, vendorId i) = (userId ?input, vendorId ?input))
                   (interactions sampleDb)
                 = Some \<lparr>vendorId = 10, liked = True, score = Some 4, userId = 1,
                         interactionId = 1\<rparr>"
    by (simp add: sampleDb_def)
  ultimately have "\<exists>row. res = Some row \<and> liked row = liked ?input"
    using upsertInteraction_overwrites[OF _ _ _ r] by blast
  then show ?thesis
    using r by (auto simp: upsertInteraction_def interaction_upsert_def Let_def
        user_findUnique_def vendor_findUnique_def sampleDb_def sampleUser_def vendorV_def
        vendorW_def apply_update_def score_or_null_def)
qed

section \<open>The orchestrator\<close>

text \<open>
  C7. When no user with the given id is stored, \<open>computeRecommendations\<close> returns \<open>null\<close>
  (it does not throw), and the only call it has made is the user lookup: no embedding
  is requested and the vendors are not loaded.
\<close>

theorem computeRecommendations_unknown_user:
  assumes "uid \<notin> set (map user_id (users db))"
  shows "computeRecommendations env db uid tm adjustmentsRaw dbg = (Inr None, [User_findUnique uid])
         \<and> getRecommendations env db uid tm adjustmentsRaw = (Inr None, [User_findUnique uid])
         \<and> getRecommendationsDebug env db uid tm adjustmentsRaw = (Inr None, [User_findUnique uid])"
proof -
  have "user_findUnique db uid = None"
    using assms by (auto simp: user_findUnique_def find_None_iff)
  then show ?thesis
    by (simp add: computeRecommendations_def getRecommendations_def getRecommendationsDebug_def)
qed

theorem computeRecommendations_unknown_user_witness:
  "computeRecommendations stubEnv sampleDb 2 True (Some ''{}'') False
     = (Inr None, [User_findUnique 2])"
  using computeRecommendations_unknown_user [of 2 sampleDb stubEnv True "Some ''{}''" False]
  by (simp add: sampleDb_def sampleUser_def)


lemma adjustmentsSchema_Some_fields:
  assumes "adjustmentsSchema j = Some a"
  shows "\<exists>obj. j = JObj obj \<and>
           (\<forall>k\<in>set traitOverrideKeys. zod_number_optional 0 5 (map_of obj k) \<noteq> None) \<and>
           (\<forall>k\<in>set weightOverrideKeys. zod_number_optional 0 1 (map_of obj k) \<noteq> None)"
proof (cases j)
  case (JObj obj)
  with assms show ?thesis
    unfolding adjustmentsSchema_def traitOverrideKeys_def weightOverrideKeys_def
    by (auto simp: bind_eq_Some_conv)
qed (use assms in \<open>simp_all add: adjustmentsSchema_def\<close>)

lemma zod_number_optional_None:
  "zod_number_optional lo hi (Some v) = None \<longleftrightarrow> (\<forall>r. v = JNum r \<longrightarrow> r < lo \<or> hi < r)"
  by (cases v) (auto simp: zod_number_optional_def)

lemma adjustmentsSchema_rejects:
  assumes "(\<nexists>obj. j = JObj obj) \<or>
           (\<exists>obj k v. j = JObj obj \<and> map_of obj k = Some v \<and>
              (k \<in> set traitOverrideKeys \<and> (\<forall>r. v = JNum r \<longrightarrow> r < 0 \<or> 5 < r) \<or>
               k \<in> set weightOverrideKeys \<and> (\<forall>r. v = JNum r \<longrightarrow> r < 0 \<or> 1 < r)))"
  shows "adjustmentsSchema j = None"
proof (rule ccontr)
  assume "adjustmentsSchema j \<noteq> None"
  then obtain a where "adjustmentsSchema j = Some a" by auto
  from adjustmentsSchema_Some_fields[OF this] obtain obj where
    j: "j = JObj obj" and
    t: "\<forall>k\<in>set traitOverrideKeys. zod_number_optional 0 5 (map_of obj k) \<noteq> None" and
    w: "\<forall>k\<in>set weightOverrideKeys. zod_number_optional 0 1 (map_of obj k) \<noteq> None"
    by auto
  from assms j obtain k v where kv: "map_of obj k = Some v" and
    bad: "k \<in> set traitOverrideKeys \<and> (\<forall>r. v = JNum r \<longrightarrow> r < 0 \<or> 5 < r) \<or>
          k \<in> set weightOverrideKeys \<and> (\<forall>r. v = JNum r \<longrightarrow> r < 0 \<or> 1 < r)"
    by auto
  from bad show False
  proof
    assume b: "k \<in> set traitOverrideKeys \<and> (\<forall>r. v = JNum r \<longrightarrow> r < 0 \<or> 5 < r)"
    then have "zod_number_optional 0 5 (map_of obj k) = None"
      by (simp add: kv zod_number_optional_None)
    with t b show False by blast
  next
    assume b: "k \<in> set weightOverrideKeys \<and> (\<forall>r. v = JNum r \<longrightarrow> r < 0 \<or> 1 < r)"
    then have "zod_number_optional 0 1 (map_of obj k) = None"
      by (simp add: kv zod_number_optional_None)
    with w b show False by blast
  qed
qed

text \<open>
  C4, amended. For an existing user and a non-empty adjustments payload that is malformed
  (\<open>JSON.parse\<close> throws, or the parsed value is refused by the schema: not an object, a
  wrong type, a trait override outside \<open>[0,5]\<close>, a weight override outside \<open>[0,1]\<close>, see
  \<open>adjustmentsSchema_rejects\<close>), \<open>computeRecommendations\<close> throws the invalid-adjustments
  error and \<open>generateEmbedding\<close> is not called. The empty string, which is not valid
  JSON either, is falsy: the code does not parse it and goes on as without a payload.
\<close>

theorem computeRecommendations_malformed_adjustments:
  assumes "user_findUnique db uid = Some u"
      and "raw \<noteq> []"
      and "JSON_parse env raw = None \<or>
           (\<exists>parsed. JSON_parse env raw = Some parsed \<and> adjustmentsSchema parsed = None)"
  shows "computeRecommendations env db uid tm (Some raw) dbg
           = (Inl InvalidAdjustments, [User_findUnique uid]) \<and>
         (\<forall>p. GenerateEmbedding p
                \<notin> set (snd (computeRecommendations env db uid tm (Some raw) dbg)))"
proof -
  have "parseAdjustments env (Some raw) = Inl InvalidAdjustments"
    using assms(2,3) by (auto simp: parseAdjustments_def)
  then have "computeRecommendations env db uid tm (Some raw) dbg
           = (Inl InvalidAdjustments, [User_findUnique uid])"
    using assms(1) by (simp add: computeRecommendations_def)
  then show ?thesis by simp
qed

lemma sampleUser_found: "user_findUnique sampleDb 1 = Some sampleUser"
  by (simp add: user_findUnique_def sampleDb_def sampleUser_def)

lemma stub_parse_values:
  "stub_JSON_parse payloadTrait7 = Some (JObj [(''Adventurous'', JNum 7)])"
  "stub_JSON_parse payloadWeight = Some (JObj [(''traitWeight'', JNum (3 / 2))])"
  "stub_JSON_parse payloadWrongType = Some (JObj [(''Loyal'', JStr ''high'')])"
  "stub_JSON_parse ''{oops'' = None"
  "stub_JSON_parse ''{}'' = Some (JObj [])"
  by (simp_all add: stub_JSON_parse_def payloadTrait7_def payloadWeight_def
        payloadWrongType_def quoted_def)

theorem computeRecommendations_malformed_adjustments_witness:
  "computeRecommendations stubEnv sampleDb 1 True (Some payloadTrait7) False
     = (Inl InvalidAdjustments, [User_findUnique 1]) \<and>
   computeRecommendations stubEnv sampleDb 1 True (Some payloadWeight) False
     = (Inl InvalidAdjustments, [User_findUnique 1]) \<and>
   computeRecommendations stubEnv sampleDb 1 True (Some payloadWrongType) False
     = (Inl InvalidAdjustments, [User_findUnique 1]) \<and>
   computeRecommendations stubEnv sampleDb 1 True (Some ''{oops'') False
     = (Inl InvalidAdjustments, [User_findUnique 1])"
proof -
  have s1: "adjustmentsSchema (JObj [(''Adventurous'', JNum 7)]) = None"
    by (rule adjustmentsSchema_rejects) (simp add: traitOverrideKeys_def)
  have s2: "adjustmentsSchema (JObj [(''traitWeight'', JNum (3 / 2))]) = None"
    by (rule adjustmentsSchema_rejects) (simp add: weightOverrideKeys_def)
  have s3: "adjustmentsSchema (JObj [(''Loyal'', JStr ''high'')]) = None"
    by (rule adjustmentsSchema_rejects) (simp add: traitOverrideKeys_def)
  have ne: "payloadTrait7 \<noteq> []" "payloadWeight \<noteq> []" "payloadWrongType \<noteq> []"
    by (simp_all add: payloadTrait7_def payloadWeight_def payloadWrongType_def)
  have p: "JSON_parse stubEnv = stub_JSON_parse" by (simp add: stubEnv_def)
  show ?thesis
    using computeRecommendations_malformed_adjustments
            [OF sampleUser_found ne(1), of stubEnv True False]
          computeRecommendations_malformed_adjustments
            [OF sampleUser_found ne(2), of stubEnv True False]
          computeRecommendations_malformed_adjustments
            [OF sampleUser_found ne(3), of stubEnv True False]
          computeRecommendations_malformed_adjustments
            [OF sampleUser_found, of "''{oops''" stubEnv True False]
    by (simp add: p stub_parse_values s1 s2 s3)
qed


text \<open>
  The empty string as payload, with \<open>testMode\<close> true: \<open>JSON.parse("")\<close> would throw, but
  \<open>if (adjustmentsRaw)\<close> skips the parsing; nothing is raised, an embedding is
  requested and the call returns a ranking.
\<close>

theorem empty_payload_not_rejected:
  "JSON_parse stubEnv [] = None \<and>
   computeRecommendations stubEnv sampleDb 1 True (Some []) False =
     (Inr (Some (rankVendors stubEnv sampleDb True False sampleUser
                   (user_interactions sampleDb 1) None [Fin 0, Fin 1])),
      [User_findUnique 1,
       GenerateEmbedding (buildUserPromptFromTraits stubEnv ''Ada'' (user_traits sampleUser) None),
       Vendor_findMany])"
proof -
  have p: "JSON_parse stubEnv [] = None"
    by (simp add: stubEnv_def stub_JSON_parse_def payloadTrait7_def payloadWeight_def
          payloadWrongType_def)
  have t: "effectiveTraits None (user_traits sampleUser) = user_traits sampleUser"
    by (simp add: effectiveTraits_def override_def sampleUser_def)
  have b: "effectiveBehaviorPreferences None sampleUser = None"
    by (simp add: effectiveBehaviorPreferences_def sampleUser_def)
  have n: "user_name sampleUser = ''Ada''" by (simp add: sampleUser_def)
  have g: "generateEmbedding stubEnv = (\<lambda>text. Some [Fin 0, Fin 1])"
    by (simp add: stubEnv_def)
  have "computeRecommendations stubEnv sampleDb 1 True (Some []) False =
     (Inr (Some (rankVendors stubEnv sampleDb True False sampleUser
                   (user_interactions sampleDb 1) None [Fin 0, Fin 1])),
      [User_findUnique 1,
       GenerateEmbedding (buildUserPromptFromTraits stubEnv ''Ada'' (user_traits sampleUser) None),
       Vendor_findMany])"
    by (simp add: computeRecommendations_def sampleUser_found parseAdjustments_def Let_def t b n g)
  with p show ?thesis by simp
qed


section \<open>Ranking\<close>

lemma set_sort_insert: "set (sort_insert c x ys) = insert x (set ys)"
  by (induction ys) auto

lemma set_Array_sort: "set (Array_sort c xs) = set xs"
  unfolding Array_sort_def by (induction xs) (simp_all add: set_sort_insert)

lemma length_sort_insert: "length (sort_insert c x ys) = Suc (length ys)"
  by (induction ys) auto

lemma length_Array_sort: "length (Array_sort c xs) = length xs"
  unfolding Array_sort_def by (induction xs) (simp_all add: length_sort_insert)

text \<open>Away from \<open>NaN\<close> the comparator agrees with \<open><=\<close>, which is then total and transitive.\<close>

lemma keeps_order_num_sub:
  "a \<noteq> NaN \<Longrightarrow> b \<noteq> NaN \<Longrightarrow> keeps_order (num_sub b a) = num_le b a"
  by (cases a; cases b) (simp_all add: num_sub_def)

lemma num_le_total: "a \<noteq> NaN \<Longrightarrow> b \<noteq> NaN \<Longrightarrow> \<not> num_le b a \<Longrightarrow> num_le a b"
  by (cases a; cases b) simp_all

lemma num_le_trans: "num_le a b \<Longrightarrow> num_le b c \<Longrightarrow> num_le a c"
  by (cases a; cases b; cases c) simp_all

lemma sorted_sort_insert:
  assumes "sorted_wrt (\<lambda>a b. num_le (finalScore (scores b)) (finalScore (scores a))) ys"
      and "finalScore (scores x) \<noteq> NaN"
      and "\<forall>y\<in>set ys. finalScore (scores y) \<noteq> NaN"
  shows "sorted_wrt (\<lambda>a b. num_le (finalScore (scores b)) (finalScore (scores a)))
           (sort_insert byFinalScoreDesc x ys)"
  using assms
proof (induction ys)
  case Nil
  then show ?case by simp
next
  case (Cons y ys)
  have cmp: "keeps_order (byFinalScoreDesc x y)
               = num_le (finalScore (scores y)) (finalScore (scores x))"
    using Cons.prems by (simp add: byFinalScoreDesc_def keeps_order_num_sub)
  show ?case
  proof (cases "keeps_order (byFinalScoreDesc x y)")
    case True
    then have xy: "num_le (finalScore (scores y)) (finalScore (scores x))"
      using cmp by simp
    have "num_le (finalScore (scores z)) (finalScore (scores x))" if "z \<in> set ys" for z
      using Cons.prems(1) that xy by (auto intro: num_le_trans)
    with True xy Cons.prems show ?thesis by simp
  next
    case False
    then have "num_le (finalScore (scores x)) (finalScore (scores y))"
      using cmp Cons.prems by (simp add: num_le_total)
    with False Cons show ?thesis by (auto simp: set_sort_insert)
  qed
qed

lemma sorted_Array_sort:
  assumes "\<forall>x\<in>set xs. finalScore (scores x) \<noteq> NaN"
  shows "sorted_wrt (\<lambda>a b. num_le (finalScore (scores b)) (finalScore (scores a)))
           (Array_sort byFinalScoreDesc xs)"
  using assms
proof (induction xs)
  case Nil
  then show ?case by (simp add: Array_sort_def)
next
  case (Cons x xs)
  then have "sorted_wrt (\<lambda>a b. num_le (finalScore (scores b)) (finalScore (scores a)))
               (Array_sort byFinalScoreDesc xs)"
    by simp
  from sorted_sort_insert[OF this, of x] Cons.prems show ?case
    by (simp add: Array_sort_def set_Array_sort[unfolded Array_sort_def])
qed

lemma recommendations_rankVendors:
  "recommendations (rankVendors env db tm dbg u rows adj e) =
     Array_sort byFinalScoreDesc
       (map (scoreVendor env dbg (normalizedWeights (effectiveWeights adj)) e
               (getUserTraitVector (effectiveTraits adj (user_traits u)))
               (map InteractionSummary.truncate rows)
               (likedVendorsTraitMap_of rows (vendors db)))
            (vendors db))"
  by (simp add: rankVendors_def Let_def)

lemma computeRecommendations_Some:
  assumes "computeRecommendations env db uid tm adjustmentsRaw dbg = (Inr (Some res), calls)"
  shows "\<exists>u adj e. user_findUnique db uid = Some u \<and>
           (e = user_embedding u \<or> (\<exists>p. generateEmbedding env p = Some e)) \<and>
           res = rankVendors env db tm dbg u (user_interactions db uid) adj e"
  using assms unfolding computeRecommendations_def
  by (auto simp: Let_def split: option.splits sum.splits if_splits)

text \<open>With finite embeddings (and exact arithmetic) every final score is finite.\<close>

lemma list_all_is_finite: "list_all is_finite xs \<Longrightarrow> \<exists>rs. xs = map Fin rs"
proof (induction xs)
  case Nil
  then show ?case by simp
next
  case (Cons x xs)
  then obtain rs where "xs = map Fin rs" by auto
  moreover from Cons.prems obtain r where "x = Fin r" by (cases x) auto
  ultimately have "x # xs = map Fin (r # rs)" by simp
  then show ?case by (rule exI)
qed

lemma finalScore_finite:
  assumes "list_all is_finite e" and "list_all is_finite (vendor_embedding v)"
  shows "is_finite (finalScore (scores (scoreVendor env dbg nw e utv ints lm v)))"
proof -
  from assms obtain x y where "e = map Fin x" "vendor_embedding v = map Fin y"
    by (blast dest: list_all_is_finite)
  then show ?thesis
    by (simp add: scoreVendor_def Let_def cosineSimilarity_Fin)
qed

text \<open>
  C8, amended. In every successful result of \<open>computeRecommendations\<close> in which no
  \<open>finalScore\<close> is \<open>NaN\<close>, the recommendations are sorted by \<open>finalScore\<close> in descending
  order: for every pair of adjacent items the later item's \<open>finalScore\<close> is at most the
  earlier item's. No \<open>finalScore\<close> is \<open>NaN\<close> (all are finite) when the stored embeddings
  of the users and vendors and every embedding the collaborator returns consist of
  finite numbers, arithmetic on finite numbers being taken as exact (no overflow).
\<close>

theorem recommendations_sorted_descending:
  assumes "computeRecommendations env db uid tm adjustmentsRaw dbg = (Inr (Some res), calls)"
  shows "((\<forall>r\<in>set (recommendations res). finalScore (scores r) \<noteq> NaN) \<longrightarrow>
            (\<forall>i. Suc i < length (recommendations res) \<longrightarrow>
               num_le (finalScore (scores (recommendations res ! Suc i)))
                      (finalScore (scores (recommendations res ! i))))) \<and>
         ((\<forall>u\<in>set (users db). list_all is_finite (user_embedding u)) \<and>
          (\<forall>v\<in>set (vendors db). list_all is_finite (vendor_embedding v)) \<and>
          (\<forall>p e. generateEmbedding env p = Some e \<longrightarrow> list_all is_finite e) \<longrightarrow>
            (\<forall>r\<in>set (recommendations res). is_finite (finalScore (scores r))) \<and>
            (\<forall>i. Suc i < length (recommendations res) \<longrightarrow>
               num_le (finalScore (scores (recommendations res ! Suc i)))
                      (finalScore (scores (recommendations res ! i)))))"
proof -
  from computeRecommendations_Some[OF assms] obtain u adj e where
    u: "user_findUnique db uid = Some u" and
    e: "e = user_embedding u \<or> (\<exists>p. generateEmbedding env p = Some e)" and
    res: "res = rankVendors env db tm dbg u (user_interactions db uid) adj e" by blast
  have sorted: "\<forall>i. Suc i < length (recommendations res) \<longrightarrow>
               num_le (finalScore (scores (recommendations res ! Suc i)))
                      (finalScore (scores (recommendations res ! i)))"
    if nn: "\<forall>r\<in>set (recommendations res). finalScore (scores r) \<noteq> NaN"
  proof -
    from nn have "sorted_wrt (\<lambda>a b. num_le (finalScore (scores b)) (finalScore (scores a)))
                    (recommendations res)"
      unfolding res recommendations_rankVendors set_Array_sort by (rule sorted_Array_sort)
    then show ?thesis by (auto simp: sorted_wrt_iff_nth_less)
  qed
  have finite: "\<forall>r\<in>set (recommendations res). is_finite (finalScore (scores r))"
    if fu: "\<forall>u\<in>set (users db). list_all is_finite (user_embedding u)"
    and fv: "\<forall>v\<in>set (vendors db). list_all is_finite (vendor_embedding v)"
    and fg: "\<forall>p e. generateEmbedding env p = Some e \<longrightarrow> list_all is_finite e"
  proof -
    have "u \<in> set (users db)"
      using u by (auto simp: user_findUnique_def find_Some_iff)
    with e fu fg have "list_all is_finite e" by blast
    with fv show ?thesis
      unfolding res recommendations_rankVendors set_Array_sort
      by (auto intro: finalScore_finite)
  qed
  have "finalScore (scores r) \<noteq> NaN" if "is_finite (finalScore (scores r))" for r
    using that by (cases "finalScore (scores r)") auto
  with sorted finite show ?thesis by blast
qed

section \<open>The source of the user embedding\<close>

lemma parseAdjustments_defined:
  "parseAdjustments env adjustmentsRaw = Inr adj \<Longrightarrow>
     adj \<noteq> None \<longleftrightarrow> (\<exists>raw. adjustmentsRaw = Some raw \<and> raw \<noteq> [])"
  by (cases adjustmentsRaw; cases adj)
     (auto simp: parseAdjustments_def split: option.splits if_splits)

text \<open>
  C2, amended. For an existing user and adjustments that are not malformed,
  \<open>computeRecommendations\<close> requests a fresh embedding from the embedding collaborator if
  and only if \<open>testMode\<close> is true or a non-empty adjustments payload was supplied,
  whether or not the payload supplies any field. Otherwise the stored embedding is
  used unchanged and no embedding is requested. When a fresh embedding is requested,
  it is requested once, for the prompt built from the effective traits and behavior
  preferences, before the vendors are loaded; the result is ranked with the embedding
  returned, and a failure of the collaborator is passed on.
\<close>

theorem userEmbedding_source:
  assumes "user_findUnique db uid = Some u"
      and "parseAdjustments env adjustmentsRaw = Inr adj"
  shows "((\<exists>p. GenerateEmbedding p
               \<in> set (snd (computeRecommendations env db uid tm adjustmentsRaw dbg)))
            \<longleftrightarrow> tm \<or> (\<exists>raw. adjustmentsRaw = Some raw \<and> raw \<noteq> [])) \<and>
         (\<not> (tm \<or> (\<exists>raw. adjustmentsRaw = Some raw \<and> raw \<noteq> [])) \<longrightarrow>
            computeRecommendations env db uid tm adjustmentsRaw dbg =
              (Inr (Some (rankVendors env db tm dbg u (user_interactions db uid) None
                            (user_embedding u))),
               [User_findUnique uid, Vendor_findMany])) \<and>
         (tm \<or> (\<exists>raw. adjustmentsRaw = Some raw \<and> raw \<noteq> []) \<longrightarrow>
            computeRecommendations env db uid tm adjustmentsRaw dbg =
              (let userPrompt = buildUserPromptFromTraits env (user_name u)
                                  (effectiveTraits adj (user_traits u))
                                  (effectiveBehaviorPreferences adj u)
               in case generateEmbedding env userPrompt of
                    None \<Rightarrow> (Inl InternalServerErrorException,
                             [User_findUnique uid, GenerateEmbedding userPrompt])
                  | Some fresh \<Rightarrow>
                      (Inr (Some (rankVendors env db tm dbg u (user_interactions db uid) adj
                                    fresh)),
                       [User_findUnique uid, GenerateEmbedding userPrompt, Vendor_findMany])))"
proof -
  have d: "adj \<noteq> None \<longleftrightarrow> (\<exists>raw. adjustmentsRaw = Some raw \<and> raw \<noteq> [])"
    by (rule parseAdjustments_defined[OF assms(2)])
  show ?thesis
  proof (cases "tm \<or> adj \<noteq> None")
    case True
    then have "tm \<or> (\<exists>raw. adjustmentsRaw = Some raw \<and> raw \<noteq> [])" using d by blast
    moreover have "computeRecommendations env db uid tm adjustmentsRaw dbg =
              (let userPrompt = buildUserPromptFromTraits env (user_name u)
                                  (effectiveTraits adj (user_traits u))
                                  (effectiveBehaviorPreferences adj u)
               in case generateEmbedding env userPrompt of
                    None \<Rightarrow> (Inl InternalServerErrorException,
                             [User_findUnique uid, GenerateEmbedding userPrompt])
                  | Some fresh \<Rightarrow>
                      (Inr (Some (rankVendors env db tm dbg u (user_interactions db uid) adj
                                    fresh)),
                       [User_findUnique uid, GenerateEmbedding userPrompt, Vendor_findMany]))"
      using True assms by (auto simp: computeRecommendations_def Let_def)
    ultimately show ?thesis
      by (simp only: simp_thms Let_def) (auto split: option.splits)
  next
    case False
    then have n: "\<not> (tm \<or> (\<exists>raw. adjustmentsRaw = Some raw \<and> raw \<noteq> []))" and a: "adj = None"
      using d by auto
    have "computeRecommendations env db uid tm adjustmentsRaw dbg =
              (Inr (Some (rankVendors env db tm dbg u (user_interactions db uid) None
                            (user_embedding u))),
               [User_findUnique uid, Vendor_findMany])"
      using False assms a by (simp add: computeRecommendations_def Let_def)
    with n show ?thesis by (simp only: simp_thms) auto
  qed
qed

lemma adjustmentsSchema_empty_object: "adjustmentsSchema (JObj []) = Some noAdjustments"
  by (simp add: adjustmentsSchema_def zod_number_optional_def zod_optional_def noAdjustments_def)

lemma parse_empty_object: "parseAdjustments stubEnv (Some ''{}'') = Inr (Some noAdjustments)"
  by (simp add: parseAdjustments_def stubEnv_def stub_parse_values adjustmentsSchema_empty_object)

text \<open>
  The payload \<open>{}\<close> with \<open>testMode\<close> false: it parses to an object with no field
  supplied, the object is truthy, and a fresh embedding is requested (and used).
\<close>

theorem empty_adjustments_object_regenerates:
  "parseAdjustments stubEnv (Some ''{}'') = Inr (Some noAdjustments) \<and>
   computeRecommendations stubEnv sampleDb 1 False (Some ''{}'') False =
     (Inr (Some (rankVendors stubEnv sampleDb False False sampleUser
                   (user_interactions sampleDb 1) (Some noAdjustments) [Fin 0, Fin 1])),
      [User_findUnique 1,
       GenerateEmbedding (buildUserPromptFromTraits stubEnv ''Ada'' (user_traits sampleUser) None),
       Vendor_findMany])"
proof -
  have t: "effectiveTraits (Some noAdjustments) (user_traits sampleUser) = user_traits sampleUser"
    by (simp add: effectiveTraits_def override_def noAdjustments_def sampleUser_def)
  have b: "effectiveBehaviorPreferences (Some noAdjustments) sampleUser = None"
    by (simp add: effectiveBehaviorPreferences_def noAdjustments_def sampleUser_def)
  have n: "user_name sampleUser = ''Ada''" by (simp add: sampleUser_def)
  have g: "generateEmbedding stubEnv = (\<lambda>text. Some [Fin 0, Fin 1])"
    by (simp add: stubEnv_def)
  show ?thesis
    by (simp add: computeRecommendations_def sampleUser_found parse_empty_object Let_def t b n g)
qed

theorem userEmbedding_source_witness:
  "computeRecommendations stubEnv sampleDb 1 False None False =
     (Inr (Some (rankVendors stubEnv sampleDb False False sampleUser
                   (user_interactions sampleDb 1) None [Fin 1, Fin 0])),
      [User_findUnique 1, Vendor_findMany]) \<and>
   snd (computeRecommendations stubEnv sampleDb 1 True None False) =
     [User_findUnique 1,
      GenerateEmbedding (buildUserPromptFromTraits stubEnv ''Ada'' (user_traits sampleUser) None),
      Vendor_findMany]"
proof -
  have p: "parseAdjustments stubEnv None = Inr None" by (simp add: parseAdjustments_def)
  have t: "effectiveTraits None (user_traits sampleUser) = user_traits sampleUser"
    by (simp add: effectiveTraits_def override_def sampleUser_def)
  have b: "effectiveBehaviorPreferences None sampleUser = None"
    by (simp add: effectiveBehaviorPreferences_def sampleUser_def)
  have n: "user_name sampleUser = ''Ada''" "user_embedding sampleUser = [Fin 1, Fin 0]"
    by (simp_all add: sampleUser_def)
  have g: "generateEmbedding stubEnv = (\<lambda>text. Some [Fin 0, Fin 1])"
    by (simp add: stubEnv_def)
  show ?thesis
    using userEmbedding_source[OF sampleUser_found p, of False False]
          userEmbedding_source[OF sampleUser_found p, of True False]
    by (simp add: Let_def t b n g)
qed

lemma computeTraitSimilarity_zero_vendor:
  "computeTraitSimilarity (replicate 12 0) traitsV = 0"
  by (simp add: computeTraitSimilarity_def normalizeVector_def traitsV_def cosineSimilarity_def
        cosine_step_def numeral_eq_Suc)

lemma length_normalizeVector: "length (normalizeVector v) = length v"
  by (cases v) (simp_all add: normalizeVector_def)

text \<open>
  The user trait vector has nine components and the vendor trait vector twelve, so
  \<open>cosineSimilarity\<close> returns \<open>0\<close> on the length test: the trait score is always \<open>0\<close>.
\<close>

lemma traitScore_zero:
  "computeTraitSimilarity (getUserTraitVector t) (getVendorTraitVector v) = 0"
  by (simp add: computeTraitSimilarity_def cosineSimilarity_def length_normalizeVector
        getUserTraitVector_def getVendorTraitVector_def)

lemma finalScore_scoreVendor:
  "finalScore (scores (scoreVendor env dbg nw e (getUserTraitVector t) ints lm v)) =
     num_add (num_mul (Fin (embedding nw)) (cosineSimilarity_num e (vendor_embedding v)))
       (Fin (behavior nw * computeBehaviorScoreForVendor (vendor_id v) ints
                              (getVendorTraitVector (vendor_traits v)) lm))"
proof -
  have "num_add (num_add x (Fin 0)) (Fin b) = num_add x (Fin b)" for x b
    by (cases x) simp_all
  then show ?thesis
    by (simp add: scoreVendor_def Let_def traitScore_zero)
qed

lemma vendor_scoreVendor: "vendor (scoreVendor e d w u t i m x) = x"
  by (simp add: scoreVendor_def Let_def)

lemma sample_behavior:
  "computeBehaviorScoreForVendor 10 [\<lparr>vendorId = 10, liked = True, score = Some 4\<rparr>]
     traitsV [10 \<mapsto> traitsV] = 1"
  "computeBehaviorScoreForVendor 11 [\<lparr>vendorId = 10, liked = True, score = Some 4\<rparr>]
     (replicate 12 0) [10 \<mapsto> traitsV] = 0"
  by (simp_all add: computeBehaviorScoreForVendor_def similarity_step_def
        computeTraitSimilarity_traitsV computeTraitSimilarity_zero_vendor)

lemma sample_vendors:
  "getVendorTraitVector (vendor_traits vendorV) = traitsV"
  "getVendorTraitVector (vendor_traits vendorW) = replicate 12 0"
  "vendor_id vendorV = 10" "vendor_id vendorW = 11"
  "vendor_embedding vendorV = [Fin 1, Fin 0]" "vendor_embedding vendorW = [Fin 0, Fin 1]"
  by (simp_all add: getVendorTraitVector_def vendorV_def vendorW_def traitsV_def numeral_eq_Suc)

lemma sample_rows:
  "user_interactions sampleDb 1 =
     [\<lparr>vendorId = 10, liked = True, score = Some 4, userId = 1, interactionId = 1\<rparr>]"
  "user_interactions infiniteDb 1 = user_interactions sampleDb 1"
  by (simp_all add: user_interactions_def sampleDb_def infiniteDb_def)

lemma sample_liked_map:
  "likedVendorsTraitMap_of (user_interactions sampleDb 1) [vendorW, vendorV] = [10 \<mapsto> traitsV]"
  "likedVendorsTraitMap_of (user_interactions sampleDb 1)
     [vendorW, vendorV\<lparr>vendor_embedding := [PInf, Fin 0]\<rparr>] = [10 \<mapsto> traitsV]"
  by (simp_all add: likedVendorsTraitMap_of_def sample_rows sample_vendors)

lemma sample_context:
  "map InteractionSummary.truncate (user_interactions sampleDb 1)
     = [\<lparr>vendorId = 10, liked = True, score = Some 4\<rparr>]"
  "normalizedWeights (effectiveWeights None) = defaultWeights"
  "effectiveTraits None (user_traits sampleUser) = user_traits sampleUser"
  by (simp_all add: sample_rows InteractionSummary.truncate_def normalizedWeights_def
        effectiveWeights_def override_def weightSum_def defaultWeights_def effectiveTraits_def
        sampleUser_def)

lemma sample_embedding_scores:
  "cosineSimilarity_num [Fin 1, Fin 0] [Fin 1, Fin 0] = Fin 1"
  "cosineSimilarity_num [Fin 1, Fin 0] [Fin 0, Fin 1] = Fin 0"
  "cosineSimilarity_num [Fin 1, Fin 0] [PInf, Fin 0] = NaN"
  by (simp_all add: cosineSimilarity_num_def cosine_step_num_def signed_inf_def)

lemma sample_run:
  "computeRecommendations stubEnv sampleDb 1 False None False =
     (Inr (Some (rankVendors stubEnv sampleDb False False sampleUser
                   (user_interactions sampleDb 1) None [Fin 1, Fin 0])),
      [User_findUnique 1, Vendor_findMany])"
  by (simp add: computeRecommendations_def sampleUser_found parseAdjustments_def Let_def
        sampleUser_def)

lemma sample_final_scores:
  "map (finalScore \<circ> scores)
     (map (scoreVendor stubEnv False defaultWeights [Fin 1, Fin 0]
             (getUserTraitVector (user_traits sampleUser))
             [\<lparr>vendorId = 10, liked = True, score = Some 4\<rparr>] [10 \<mapsto> traitsV])
        [vendorW, vendorV]) = [Fin 0, Fin (7 / 10)]"
  by (simp add: finalScore_scoreVendor sample_vendors sample_behavior sample_embedding_scores
        defaultWeights_def)

text \<open>
  The stored embedding of \<open>V\<close> is \<open>[Infinity, 0]\<close>: its embedding score against
  \<open>[1, 0]\<close> is \<open>Infinity / (1 * Infinity) = NaN\<close>, so its final score is \<open>NaN\<close>; the
  comparator returns \<open>NaN\<close>, the call succeeds, and the final scores of the result are
  \<open>0\<close> and \<open>NaN\<close>. Neither \<open>0 >= NaN\<close> nor \<open>NaN >= 0\<close> holds, so no order of the two
  items is descending.
\<close>

theorem NaN_finalScore_not_descending:
  "fst (computeRecommendations stubEnv infiniteDb 1 False None False) =
     Inr (Some (rankVendors stubEnv infiniteDb False False sampleUser
                  (user_interactions infiniteDb 1) None [Fin 1, Fin 0])) \<and>
   map (finalScore \<circ> scores)
     (recommendations (rankVendors stubEnv infiniteDb False False sampleUser
                         (user_interactions infiniteDb 1) None [Fin 1, Fin 0]))
     = [Fin 0, NaN] \<and>
   \<not> num_le NaN (Fin 0) \<and> \<not> num_le (Fin 0) NaN"
proof -
  have u: "user_findUnique infiniteDb 1 = Some sampleUser"
    by (simp add: user_findUnique_def infiniteDb_def sampleDb_def sampleUser_def)
  have vs: "vendors infiniteDb = [vendorW, vendorV\<lparr>vendor_embedding := [PInf, Fin 0]\<rparr>]"
    by (simp add: infiniteDb_def)
  have run: "fst (computeRecommendations stubEnv infiniteDb 1 False None False) =
     Inr (Some (rankVendors stubEnv infiniteDb False False sampleUser
                  (user_interactions infiniteDb 1) None [Fin 1, Fin 0]))"
    by (simp add: computeRecommendations_def u parseAdjustments_def Let_def sampleUser_def)
  have sc: "map (finalScore \<circ> scores)
     (map (scoreVendor stubEnv False defaultWeights [Fin 1, Fin 0]
             (getUserTraitVector (user_traits sampleUser))
             [\<lparr>vendorId = 10, liked = True, score = Some 4\<rparr>] [10 \<mapsto> traitsV])
        [vendorW, vendorV\<lparr>vendor_embedding := [PInf, Fin 0]\<rparr>]) = [Fin 0, NaN]"
    by (simp add: finalScore_scoreVendor sample_vendors sample_behavior sample_embedding_scores
          defaultWeights_def)
  have "map (finalScore \<circ> scores)
     (recommendations (rankVendors stubEnv infiniteDb False False sampleUser
                         (user_interactions infiniteDb 1) None [Fin 1, Fin 0]))
     = [Fin 0, NaN]"
    using sc
    by (simp add: recommendations_rankVendors sample_rows(2) sample_context vs sample_liked_map
          Array_sort_def byFinalScoreDesc_def num_sub_def)
  with run show ?thesis by simp
qed

theorem recommendations_sorted_descending_witness:
  "map (\<lambda>r. (vendor_id (vendor r), finalScore (scores r)))
     (recommendations (rankVendors stubEnv sampleDb False False sampleUser
                         (user_interactions sampleDb 1) None [Fin 1, Fin 0]))
     = [(10, Fin (7 / 10)), (11, Fin 0)]"
proof -
  have vs: "vendors sampleDb = [vendorW, vendorV]" by (simp add: sampleDb_def)
  let ?res = "rankVendors stubEnv sampleDb False False sampleUser
                (user_interactions sampleDb 1) None [Fin 1, Fin 0]"
  have fin: "\<forall>u\<in>set (users sampleDb). list_all is_finite (user_embedding u)"
            "\<forall>v\<in>set (vendors sampleDb). list_all is_finite (vendor_embedding v)"
            "\<forall>p e. generateEmbedding stubEnv p = Some e \<longrightarrow> list_all is_finite e"
    by (auto simp: sampleDb_def sampleUser_def sample_vendors stubEnv_def)
  have len: "length (recommendations ?res) = 2"
    by (simp add: recommendations_rankVendors length_Array_sort vs)
  from recommendations_sorted_descending[OF sample_run] fin
  have "\<forall>i. Suc i < length (recommendations ?res) \<longrightarrow>
          num_le (finalScore (scores (recommendations ?res ! Suc i)))
                 (finalScore (scores (recommendations ?res ! i)))"
    by blast
  with len show ?thesis
    using sample_final_scores
    by (simp add: recommendations_rankVendors sample_context vs sample_liked_map Array_sort_def
          byFinalScoreDesc_def num_sub_def vendor_scoreVendor sample_vendors)
qed

end
